theory Spec2Isabelle
  imports Complex_Main
begin

section \<open>Data model (shoppingCart/types, events, commands)\<close>

text \<open>
  A JavaScript \<^verbatim>\<open>Date\<close> is modelled by its millisecond count, a \<^verbatim>\<open>number\<close> that
  counts units by \<open>int\<close> and one that holds a price by \<open>real\<close> (exact arithmetic, no
  rounding). Optional fields (\<^verbatim>\<open>confirmedAt?\<close>) are options.
\<close>

type_synonym Date = int

record ProductItem =
  productId :: string
  productName :: string
  quantity :: int

record PricedProductItem = ProductItem +
  unitPrice :: real

datatype ShoppingCartStatus = Opened | Confirmed | Cancelled

text \<open>The field \<^verbatim>\<open>id\<close> of the source is \<open>cart_id\<close> here (\<open>id\<close> is HOL's identity).\<close>

record ShoppingCart =
  cart_id :: string
  customerId :: string
  status :: ShoppingCartStatus
  items :: "PricedProductItem list"
  openedAt :: Date
  confirmedAt :: "Date option"
  cancelledAt :: "Date option"

text \<open>
  The five event types of \<^verbatim>\<open>events/index.ts\<close>, each with the fields of its
  \<^verbatim>\<open>data\<close>. \<open>UnrecognizedEvent\<close> carries a type tag that is none of the five: the
  \<^verbatim>\<open>default:\<close> branches of the folds handle it (events are read back from JSON files).
\<close>

datatype ShoppingCartEvent =
    ShoppingCartOpened string string Date
  | ProductItemAddedToShoppingCart string PricedProductItem Date
  | ProductItemRemovedFromShoppingCart string ProductItem Date
  | ShoppingCartConfirmed string Date
  | ShoppingCartCancelled string Date
  | UnrecognizedEvent string

text \<open>
  The commands that \<^verbatim>\<open>decide\<close> dispatches on; \<open>UnknownCommand\<close> carries a type tag
  that is none of the five (\<^verbatim>\<open>command: { type: string; data: any }\<close>).
\<close>

datatype Command =
    OpenShoppingCart string string
  | AddProductItemToShoppingCart string PricedProductItem
  | RemoveProductItemFromShoppingCart string ProductItem
  | ConfirmShoppingCart string
  | CancelShoppingCart string
  | UnknownCommand string

text \<open>
  What the code throws: emmett's \<^verbatim>\<open>IllegalStateError\<close> with its message, the plain
  \<^verbatim>\<open>Error\<close> of \<^verbatim>\<open>decide\<close>'s default branch, and the \<^verbatim>\<open>TypeError\<close> JavaScript raises
  on reading a property of \<^verbatim>\<open>undefined\<close>.
\<close>

datatype error =
    IllegalStateError string
  | UnknownCommandError string
  | TypeError

section \<open>Array primitives\<close>

text \<open>\<^verbatim>\<open>Array.prototype.findIndex\<close>: the first index whose element satisfies \<open>P\<close>, or \<open>-1\<close>.\<close>

fun findIndex :: "('a \<Rightarrow> bool) \<Rightarrow> 'a list \<Rightarrow> int" where
  "findIndex P [] = - 1"
| "findIndex P (x # xs) =
     (if P x then 0 else (let i = findIndex P xs in if i < 0 then - 1 else i + 1))"

text \<open>\<^verbatim>\<open>xs[i]\<close>: \<^verbatim>\<open>undefined\<close> (here \<open>None\<close>) outside the array.\<close>

definition elemAt :: "'a list \<Rightarrow> int \<Rightarrow> 'a option" where
  "elemAt xs i = (if 0 \<le> i \<and> nat i < length xs then Some (xs ! nat i) else None)"

text \<open>
  \<^verbatim>\<open>xs.filter((_, index) => P(index))\<close>: the loop of \<^verbatim>\<open>filter\<close>, \<open>k\<close> being the index
  of the head.
\<close>

fun filterByIndex :: "(int \<Rightarrow> bool) \<Rightarrow> int \<Rightarrow> 'a list \<Rightarrow> 'a list" where
  "filterByIndex P k [] = []"
| "filterByIndex P k (x # xs) =
     (if P k then x # filterByIndex P (k + 1) xs else filterByIndex P (k + 1) xs)"

section \<open>The decider (shoppingCart/domain/shoppingCart.ts)\<close>

text \<open>\<^verbatim>\<open>initialState\<close>; its argument is the value of \<^verbatim>\<open>new Date()\<close>.\<close>

definition initialState :: "Date \<Rightarrow> ShoppingCart" where
  "initialState clock =
     \<lparr>cart_id = '''', customerId = '''', status = Opened, items = [],
      openedAt = clock, confirmedAt = None, cancelledAt = None\<rparr>"

text \<open>
  The command handlers. \<open>now\<close> is the value of \<^verbatim>\<open>metadata?.now ?? new Date()\<close>.
\<close>

definition openShoppingCart :: "string \<Rightarrow> string \<Rightarrow> ShoppingCart \<Rightarrow> Date \<Rightarrow> error + ShoppingCartEvent" where
  "openShoppingCart shoppingCartId customer state now =
     (if cart_id state \<noteq> '''' then Inl (IllegalStateError ''Shopping cart already exists'')
      else Inr (ShoppingCartOpened shoppingCartId customer now))"

definition addProductItem :: "string \<Rightarrow> PricedProductItem \<Rightarrow> ShoppingCart \<Rightarrow> Date \<Rightarrow> error + ShoppingCartEvent" where
  "addProductItem shoppingCartId productItem state now =
     (if status state \<noteq> Opened
      then Inl (IllegalStateError ''Cannot add product to a closed shopping cart'')
      else Inr (ProductItemAddedToShoppingCart shoppingCartId productItem now))"

definition removeProductItem :: "string \<Rightarrow> ProductItem \<Rightarrow> ShoppingCart \<Rightarrow> Date \<Rightarrow> error + ShoppingCartEvent" where
  "removeProductItem shoppingCartId productItem state now =
     (if status state \<noteq> Opened
      then Inl (IllegalStateError ''Cannot remove product from a closed shopping cart'')
      else
        (case find (\<lambda>item. productId item = productId productItem) (items state) of
           None \<Rightarrow> Inl (IllegalStateError ''Product item not found in shopping cart'')
         | Some existingItem \<Rightarrow>
             if quantity existingItem < quantity productItem
             then Inl (IllegalStateError ''Cannot remove more items than available in cart'')
             else Inr (ProductItemRemovedFromShoppingCart shoppingCartId productItem now)))"

definition confirmShoppingCart :: "string \<Rightarrow> ShoppingCart \<Rightarrow> Date \<Rightarrow> error + ShoppingCartEvent" where
  "confirmShoppingCart shoppingCartId state now =
     (if status state \<noteq> Opened
      then Inl (IllegalStateError ''Cannot confirm a shopping cart that is not open'')
      else if length (items state) = 0
      then Inl (IllegalStateError ''Cannot confirm an empty shopping cart'')
      else Inr (ShoppingCartConfirmed shoppingCartId now))"

definition cancelShoppingCart :: "string \<Rightarrow> ShoppingCart \<Rightarrow> Date \<Rightarrow> error + ShoppingCartEvent" where
  "cancelShoppingCart shoppingCartId state now =
     (if status state \<noteq> Opened
      then Inl (IllegalStateError ''Cannot cancel a shopping cart that is not open'')
      else Inr (ShoppingCartCancelled shoppingCartId now))"

text \<open>
  \<^verbatim>\<open>mergeProductItems\<close> and \<^verbatim>\<open>removeProductItems\<close>. Reading \<^verbatim>\<open>.quantity\<close> of the
  element at \<^verbatim>\<open>existingIndex\<close> throws a \<^verbatim>\<open>TypeError\<close> when that element is
  \<^verbatim>\<open>undefined\<close>; the spread \<^verbatim>\<open>{...item, quantity: q}\<close> is a record update.
\<close>

definition mergeProductItems :: "PricedProductItem list \<Rightarrow> PricedProductItem \<Rightarrow> error + PricedProductItem list" where
  "mergeProductItems its productItem =
     (let existingIndex = findIndex (\<lambda>item. productId item = productId productItem) its in
      if existingIndex \<ge> 0 then
        (case elemAt its existingIndex of
           None \<Rightarrow> Inl TypeError
         | Some existing \<Rightarrow>
             Inr (its[nat existingIndex :=
                        existing\<lparr>quantity := quantity existing + quantity productItem\<rparr>]))
      else Inr (its @ [productItem]))"

definition removeProductItems :: "PricedProductItem list \<Rightarrow> ProductItem \<Rightarrow> error + PricedProductItem list" where
  "removeProductItems its productItem =
     (let existingIndex = findIndex (\<lambda>item. productId item = productId productItem) its in
      if existingIndex < 0 then Inr its
      else
        (case elemAt its existingIndex of
           None \<Rightarrow> Inl TypeError
         | Some existingItem \<Rightarrow>
             (let newQuantity = quantity existingItem - quantity productItem in
              if newQuantity \<le> 0
              then Inr (filterByIndex (\<lambda>index. index \<noteq> existingIndex) 0 its)
              else Inr (its[nat existingIndex := existingItem\<lparr>quantity := newQuantity\<rparr>]))))"

fun evolve :: "ShoppingCart \<Rightarrow> ShoppingCartEvent \<Rightarrow> error + ShoppingCart" where
  "evolve state (ShoppingCartOpened shoppingCartId customer ts) =
     Inr \<lparr>cart_id = shoppingCartId, customerId = customer, status = Opened, items = [],
          openedAt = ts, confirmedAt = None, cancelledAt = None\<rparr>"
| "evolve state (ProductItemAddedToShoppingCart shoppingCartId productItem ts) =
     (case mergeProductItems (items state) productItem of
        Inl e \<Rightarrow> Inl e
      | Inr its \<Rightarrow> Inr (state\<lparr>items := its\<rparr>))"
| "evolve state (ProductItemRemovedFromShoppingCart shoppingCartId productItem ts) =
     (case removeProductItems (items state) productItem of
        Inl e \<Rightarrow> Inl e
      | Inr its \<Rightarrow> Inr (state\<lparr>items := its\<rparr>))"
| "evolve state (ShoppingCartConfirmed shoppingCartId ts) =
     Inr (state\<lparr>status := Confirmed, confirmedAt := Some ts\<rparr>)"
| "evolve state (ShoppingCartCancelled shoppingCartId ts) =
     Inr (state\<lparr>status := Cancelled, cancelledAt := Some ts\<rparr>)"
| "evolve state (UnrecognizedEvent tag) = Inr state"

fun decide :: "Command \<Rightarrow> ShoppingCart \<Rightarrow> Date \<Rightarrow> error + ShoppingCartEvent" where
  "decide (OpenShoppingCart shoppingCartId customer) state now =
     openShoppingCart shoppingCartId customer state now"
| "decide (AddProductItemToShoppingCart shoppingCartId productItem) state now =
     addProductItem shoppingCartId productItem state now"
| "decide (RemoveProductItemFromShoppingCart shoppingCartId productItem) state now =
     removeProductItem shoppingCartId productItem state now"
| "decide (ConfirmShoppingCart shoppingCartId) state now =
     confirmShoppingCart shoppingCartId state now"
| "decide (CancelShoppingCart shoppingCartId) state now =
     cancelShoppingCart shoppingCartId state now"
| "decide (UnknownCommand tag) state now = Inl (UnknownCommandError tag)"

text \<open>
  The loop of \<^verbatim>\<open>handleCommand\<close> (\<^verbatim>\<open>shoppingCart/api/index.ts\<close>) that rebuilds the state:
  \<^verbatim>\<open>for (const event of events) currentState = evolve(currentState, event)\<close>.
\<close>

fun foldEvents :: "ShoppingCart \<Rightarrow> ShoppingCartEvent list \<Rightarrow> error + ShoppingCart" where
  "foldEvents state [] = Inr state"
| "foldEvents state (event # events) =
     (case evolve state event of
        Inl e \<Rightarrow> Inl e
      | Inr state' \<Rightarrow> foldEvents state' events)"

text \<open>
  A sequence of commands, each decided against the state folded so far and its event
  folded in by \<open>evolve\<close>; a rejected command ends the run with its error. Each command
  comes with the time its handler reads.
\<close>

fun runCommands :: "ShoppingCart \<Rightarrow> (Command \<times> Date) list \<Rightarrow> error + ShoppingCart" where
  "runCommands state [] = Inr state"
| "runCommands state ((command, now) # rest) =
     (case decide command state now of
        Inl e \<Rightarrow> Inl e
      | Inr event \<Rightarrow>
          (case evolve state event of
             Inl e \<Rightarrow> Inl e
           | Inr state' \<Rightarrow> runCommands state' rest))"

section \<open>The cart summary projection (shoppingCart/projections/shoppingCartSummary.ts)\<close>

text \<open>
  \<^verbatim>\<open>ShoppingCartSummary\<close> has the fields of \<^verbatim>\<open>ShoppingCart\<close> and the two totals; its
  fields carry the prefix \<open>summary_\<close> where the cart has a field of the same name.
\<close>

record ShoppingCartSummary =
  summary_id :: string
  summary_customerId :: string
  summary_status :: ShoppingCartStatus
  summary_items :: "PricedProductItem list"
  totalAmount :: real
  totalItemsCount :: int
  summary_openedAt :: Date
  summary_confirmedAt :: "Date option"
  summary_cancelledAt :: "Date option"

text \<open>
  \<^verbatim>\<open>calculateTotals\<close>: the \<^verbatim>\<open>reduce\<close> from \<^verbatim>\<open>{ totalAmount: 0, totalItemsCount: 0 }\<close>,
  the object of the two totals being a pair (amount, count).
\<close>

definition calculateTotals :: "PricedProductItem list \<Rightarrow> real \<times> int" where
  "calculateTotals its =
     foldl (\<lambda>(amount, count) item.
              (amount + unitPrice item * real_of_int (quantity item), count + quantity item))
       (0, 0) its"

text \<open>
  The projection file has its own \<^verbatim>\<open>mergeProductItems\<close> and \<^verbatim>\<open>removeProductItems\<close>, the
  same text as the decider's, so the definitions above stand for both.
\<close>

fun evolveShoppingCartSummary ::
  "ShoppingCartSummary option \<Rightarrow> ShoppingCartEvent \<Rightarrow> error + ShoppingCartSummary option" where
  "evolveShoppingCartSummary document (ShoppingCartOpened shoppingCartId customer ts) =
     Inr (Some \<lparr>summary_id = shoppingCartId, summary_customerId = customer,
                summary_status = Opened, summary_items = [], totalAmount = 0,
                totalItemsCount = 0, summary_openedAt = ts, summary_confirmedAt = None,
                summary_cancelledAt = None\<rparr>)"
| "evolveShoppingCartSummary document (ProductItemAddedToShoppingCart shoppingCartId productItem ts) =
     (case document of
        None \<Rightarrow> Inr None
      | Some doc \<Rightarrow>
          (case mergeProductItems (summary_items doc) productItem of
             Inl e \<Rightarrow> Inl e
           | Inr updatedItems \<Rightarrow>
               (let totals = calculateTotals updatedItems in
                Inr (Some (doc\<lparr>summary_items := updatedItems, totalAmount := fst totals,
                                totalItemsCount := snd totals\<rparr>)))))"
| "evolveShoppingCartSummary document (ProductItemRemovedFromShoppingCart shoppingCartId productItem ts) =
     (case document of
        None \<Rightarrow> Inr None
      | Some doc \<Rightarrow>
          (case removeProductItems (summary_items doc) productItem of
             Inl e \<Rightarrow> Inl e
           | Inr updatedItems \<Rightarrow>
               (let totals = calculateTotals updatedItems in
                Inr (Some (doc\<lparr>summary_items := updatedItems, totalAmount := fst totals,
                                totalItemsCount := snd totals\<rparr>)))))"
| "evolveShoppingCartSummary document (ShoppingCartConfirmed shoppingCartId ts) =
     (case document of
        None \<Rightarrow> Inr None
      | Some doc \<Rightarrow> Inr (Some (doc\<lparr>summary_status := Confirmed, summary_confirmedAt := Some ts\<rparr>)))"
| "evolveShoppingCartSummary document (ShoppingCartCancelled shoppingCartId ts) =
     (case document of
        None \<Rightarrow> Inr None
      | Some doc \<Rightarrow> Inr (Some (doc\<lparr>summary_status := Cancelled, summary_cancelledAt := Some ts\<rparr>)))"
| "evolveShoppingCartSummary document (UnrecognizedEvent tag) = Inr document"

text \<open>The projection folded over the events of a stream, in order.\<close>

fun foldShoppingCartSummary ::
  "ShoppingCartSummary option \<Rightarrow> ShoppingCartEvent list \<Rightarrow> error + ShoppingCartSummary option" where
  "foldShoppingCartSummary document [] = Inr document"
| "foldShoppingCartSummary document (event # events) =
     (case evolveShoppingCartSummary document event of
        Inl e \<Rightarrow> Inl e
      | Inr document' \<Rightarrow> foldShoppingCartSummary document' events)"

text \<open>The invariant of a summary document: its two totals are the sums over its items.\<close>

definition totalsConsistent :: "ShoppingCartSummary \<Rightarrow> bool" where
  "totalsConsistent doc \<longleftrightarrow>
     totalAmount doc
       = sum_list (map (\<lambda>item. unitPrice item * real_of_int (quantity item)) (summary_items doc))
     \<and> totalItemsCount doc = sum_list (map quantity (summary_items doc))"

section \<open>The customer summary projection (shoppingCart/projections/customerShoppingSummary.ts)\<close>

text \<open>An entry of \<^verbatim>\<open>carts\<close>; its \<^verbatim>\<open>status\<close> is a \<^verbatim>\<open>string\<close> in the source.\<close>

record CustomerCart =
  entry_id :: string
  entry_status :: string
  entry_totalAmount :: real
  entry_openedAt :: Date

record CustomerShoppingSummary =
  customer_customerId :: string
  totalCarts :: int
  activeCartsCount :: int
  confirmedCartsCount :: int
  cancelledCartsCount :: int
  totalSpent :: real
  lastActivityAt :: Date
  carts :: "CustomerCart list"

text \<open>
  \<^verbatim>\<open>evolveCustomerShoppingSummary\<close>. Reading \<^verbatim>\<open>.totalAmount\<close> of the entry at
  \<^verbatim>\<open>cartIndex\<close> throws a \<^verbatim>\<open>TypeError\<close> when the entry is \<^verbatim>\<open>undefined\<close>. The branch of
  \<^verbatim>\<open>ShoppingCartCancelled\<close> only spreads the entry, which cannot throw; it runs
  behind the guard \<^verbatim>\<open>cartIndex < 0\<close>, so \<^verbatim>\<open>cartIndex\<close> is the index of an entry and the
  assignment is a list update.
\<close>

fun evolveCustomerShoppingSummary ::
  "CustomerShoppingSummary option \<Rightarrow> ShoppingCartEvent \<Rightarrow> string
     \<Rightarrow> error + CustomerShoppingSummary option" where
  "evolveCustomerShoppingSummary document (ShoppingCartOpened shoppingCartId customer ts) streamId =
     (let existing =
            (case document of
               Some doc \<Rightarrow> doc
             | None \<Rightarrow>
                 \<lparr>customer_customerId = customer, totalCarts = 0, activeCartsCount = 0,
                  confirmedCartsCount = 0, cancelledCartsCount = 0, totalSpent = 0,
                  lastActivityAt = ts, carts = []\<rparr>)
      in Inr (Some (existing
           \<lparr>totalCarts := totalCarts existing + 1,
            activeCartsCount := activeCartsCount existing + 1,
            lastActivityAt := ts,
            carts := carts existing @
              [\<lparr>entry_id = shoppingCartId, entry_status = ''Opened'', entry_totalAmount = 0,
                entry_openedAt = ts\<rparr>]\<rparr>)))"
| "evolveCustomerShoppingSummary document (ProductItemAddedToShoppingCart shoppingCartId productItem ts) streamId =
     (case document of
        None \<Rightarrow> Inr None
      | Some doc \<Rightarrow>
          (let cartIndex = findIndex (\<lambda>cart. entry_id cart = shoppingCartId) (carts doc) in
           if cartIndex < 0 then Inr (Some doc)
           else
             (case elemAt (carts doc) cartIndex of
                None \<Rightarrow> Inl TypeError
              | Some cart \<Rightarrow>
                  Inr (Some (doc
                    \<lparr>carts := (carts doc)[nat cartIndex :=
                        cart\<lparr>entry_totalAmount := entry_totalAmount cart
                               + unitPrice productItem * real_of_int (quantity productItem)\<rparr>],
                     lastActivityAt := ts\<rparr>)))))"
| "evolveCustomerShoppingSummary document (ProductItemRemovedFromShoppingCart shoppingCartId productItem ts) streamId =
     (case document of
        None \<Rightarrow> Inr None
      | Some doc \<Rightarrow> Inr (Some (doc\<lparr>lastActivityAt := ts\<rparr>)))"
| "evolveCustomerShoppingSummary document (ShoppingCartConfirmed shoppingCartId ts) streamId =
     (case document of
        None \<Rightarrow> Inr None
      | Some doc \<Rightarrow>
          (let cartIndex = findIndex (\<lambda>cart. entry_id cart = shoppingCartId) (carts doc) in
           if cartIndex < 0 then Inr (Some doc)
           else
             (case elemAt (carts doc) cartIndex of
                None \<Rightarrow> Inl TypeError
              | Some cart \<Rightarrow>
                  Inr (Some (doc
                    \<lparr>activeCartsCount := activeCartsCount doc - 1,
                     confirmedCartsCount := confirmedCartsCount doc + 1,
                     totalSpent := totalSpent doc + entry_totalAmount cart,
                     carts := (carts doc)[nat cartIndex := cart\<lparr>entry_status := ''Confirmed''\<rparr>],
                     lastActivityAt := ts\<rparr>)))))"
| "evolveCustomerShoppingSummary document (ShoppingCartCancelled shoppingCartId ts) streamId =
     (case document of
        None \<Rightarrow> Inr None
      | Some doc \<Rightarrow>
          (let cartIndex = findIndex (\<lambda>cart. entry_id cart = shoppingCartId) (carts doc) in
           if cartIndex < 0 then Inr (Some doc)
           else
             Inr (Some (doc
               \<lparr>activeCartsCount := activeCartsCount doc - 1,
                cancelledCartsCount := cancelledCartsCount doc + 1,
                carts := (carts doc)[nat cartIndex :=
                   (carts doc ! nat cartIndex)\<lparr>entry_status := ''Cancelled''\<rparr>],
                lastActivityAt := ts\<rparr>))))"
| "evolveCustomerShoppingSummary document (UnrecognizedEvent tag) streamId = Inr document"

section \<open>The event store (eventStore/jsonFileEventStore.ts)\<close>

subsection \<open>The fold of \<^verbatim>\<open>getAllCarts\<close> over the events of one stream file\<close>

text \<open>
  An entry of \<^verbatim>\<open>cartSummary.items\<close> (the unit price is its \<^verbatim>\<open>price\<close>) and the
  \<^verbatim>\<open>cartSummary\<close> object; fields carry a prefix where an earlier record has the name.
\<close>

record CartLine =
  line_productId :: string
  line_productName :: string
  line_quantity :: int
  price :: real

record CartSummary =
  cartSummary_id :: string
  lastUpdated :: string
  totalEvents :: nat
  cartSummary_status :: ShoppingCartStatus
  cartSummary_items :: "CartLine list"
  cartSummary_customerId :: "string option"
  cartSummary_openedAt :: "Date option"
  cartSummary_confirmedAt :: "Date option"
  cartSummary_cancelledAt :: "Date option"

text \<open>
  \<^verbatim>\<open>find\<close> returns the element itself, and the code then assigns to its \<^verbatim>\<open>quantity\<close>:
  the first element that satisfies \<open>P\<close> is changed in place.
\<close>

fun updateFirst :: "('a \<Rightarrow> bool) \<Rightarrow> ('a \<Rightarrow> 'a) \<Rightarrow> 'a list \<Rightarrow> 'a list" where
  "updateFirst P f [] = []"
| "updateFirst P f (x # xs) = (if P x then f x # xs else x # updateFirst P f xs)"

text \<open>The object built before the loop, from the stream file's \<^verbatim>\<open>jsonData\<close>.\<close>

definition cartSummaryInit :: "string \<Rightarrow> string \<Rightarrow> nat \<Rightarrow> CartSummary" where
  "cartSummaryInit streamId updated n =
     \<lparr>cartSummary_id = streamId, lastUpdated = updated, totalEvents = n,
      cartSummary_status = Opened, cartSummary_items = [], cartSummary_customerId = None,
      cartSummary_openedAt = None, cartSummary_confirmedAt = None,
      cartSummary_cancelledAt = None\<rparr>"

text \<open>The \<^verbatim>\<open>switch (event.type)\<close> of the loop: one event applied to \<^verbatim>\<open>cartSummary\<close>.\<close>

fun cartSummaryStep :: "CartSummary \<Rightarrow> ShoppingCartEvent \<Rightarrow> CartSummary" where
  "cartSummaryStep cartSummary (ShoppingCartOpened shoppingCartId customer ts) =
     cartSummary\<lparr>cartSummary_customerId := Some customer, cartSummary_openedAt := Some ts,
                 cartSummary_status := Opened\<rparr>"
| "cartSummaryStep cartSummary (ProductItemAddedToShoppingCart shoppingCartId productItem ts) =
     (case find (\<lambda>item. line_productId item = productId productItem)
             (cartSummary_items cartSummary) of
        Some existingItem \<Rightarrow>
          cartSummary\<lparr>cartSummary_items :=
            updateFirst (\<lambda>item. line_productId item = productId productItem)
              (\<lambda>item. item\<lparr>line_quantity := line_quantity item + quantity productItem\<rparr>)
              (cartSummary_items cartSummary)\<rparr>
      | None \<Rightarrow>
          cartSummary\<lparr>cartSummary_items := cartSummary_items cartSummary @
            [\<lparr>line_productId = productId productItem,
              line_productName = productName productItem,
              line_quantity = quantity productItem,
              price = unitPrice productItem\<rparr>]\<rparr>)"
| "cartSummaryStep cartSummary (ProductItemRemovedFromShoppingCart shoppingCartId productItem ts) =
     (case find (\<lambda>item. line_productId item = productId productItem)
             (cartSummary_items cartSummary) of
        Some itemToRemove \<Rightarrow>
          (let decreased =
                 updateFirst (\<lambda>item. line_productId item = productId productItem)
                   (\<lambda>item. item\<lparr>line_quantity := line_quantity item - quantity productItem\<rparr>)
                   (cartSummary_items cartSummary)
           in if line_quantity itemToRemove - quantity productItem \<le> 0
              then cartSummary\<lparr>cartSummary_items :=
                     filter (\<lambda>item. line_productId item \<noteq> productId productItem) decreased\<rparr>
              else cartSummary\<lparr>cartSummary_items := decreased\<rparr>)
      | None \<Rightarrow> cartSummary)"
| "cartSummaryStep cartSummary (ShoppingCartConfirmed shoppingCartId ts) =
     cartSummary\<lparr>cartSummary_status := Confirmed, cartSummary_confirmedAt := Some ts\<rparr>"
| "cartSummaryStep cartSummary (ShoppingCartCancelled shoppingCartId ts) =
     cartSummary\<lparr>cartSummary_status := Cancelled, cartSummary_cancelledAt := Some ts\<rparr>"
| "cartSummaryStep cartSummary (UnrecognizedEvent tag) = cartSummary"

text \<open>The loop \<^verbatim>\<open>for (const event of jsonData.events)\<close>.\<close>

fun cartSummaryFold :: "CartSummary \<Rightarrow> ShoppingCartEvent list \<Rightarrow> CartSummary" where
  "cartSummaryFold cartSummary [] = cartSummary"
| "cartSummaryFold cartSummary (event # events) =
     cartSummaryFold (cartSummaryStep cartSummary event) events"

text \<open>What the refinement compares: product, quantity and unit price of each line, in order.\<close>

definition linesOfCart :: "PricedProductItem list \<Rightarrow> (string \<times> int \<times> real) list" where
  "linesOfCart its = map (\<lambda>item. (productId item, quantity item, unitPrice item)) its"

definition linesOfSummary :: "CartLine list \<Rightarrow> (string \<times> int \<times> real) list" where
  "linesOfSummary ls = map (\<lambda>item. (line_productId item, line_quantity item, price item)) ls"

subsection \<open>\<^verbatim>\<open>appendToStream\<close>, the in-memory append followed by the file write\<close>

text \<open>
  The in-memory store is emmett's and the file system is Node's: both are parameters.
  \<open>originalAppendToStream\<close> and \<open>readStream\<close> run on the store's state \<open>'m\<close> and
  return a value or throw (\<open>Inl\<close>); \<open>stringify\<close> is the \<^verbatim>\<open>JSON.stringify\<close> of the
  \<^verbatim>\<open>jsonData\<close> built from the stream that was read back, and returns the text or
  throws; \<open>pathJoin\<close> is \<^verbatim>\<open>path.join\<close>; \<open>writeFile\<close> runs on the files \<open>'f\<close> and
  returns the new files, or \<open>None\<close> when its promise is rejected. The state of the
  world is the store, the files and the lines written by \<^verbatim>\<open>console.warn\<close>.
  Whatever is thrown between \<^verbatim>\<open>try {\<close> and \<^verbatim>\<open>} catch\<close> ends in the warning.
\<close>

record ('m, 'f) world =
  store :: 'm
  files :: 'f
  console :: "string list"

definition appendToStream ::
  "(string \<Rightarrow> 'e list \<Rightarrow> 'o \<Rightarrow> 'm \<Rightarrow> 'x + ('r \<times> 'm))
     \<Rightarrow> (string \<Rightarrow> 'm \<Rightarrow> 'x + 's)
     \<Rightarrow> (string \<Rightarrow> 's \<Rightarrow> 'x + string)
     \<Rightarrow> (string \<Rightarrow> string \<Rightarrow> string)
     \<Rightarrow> (string \<Rightarrow> string \<Rightarrow> 'f \<Rightarrow> 'f option)
     \<Rightarrow> string \<Rightarrow> string \<Rightarrow> 'e list \<Rightarrow> 'o \<Rightarrow> ('m, 'f) world
     \<Rightarrow> 'x + ('r \<times> ('m, 'f) world)" where
  "appendToStream originalAppendToStream readStream stringify pathJoin writeFile dataDirectory
      streamId events options w =
     (case originalAppendToStream streamId events options (store w) of
        Inl e \<Rightarrow> Inl e
      | Inr (result, store') \<Rightarrow>
          (let warned = w\<lparr>store := store',
                          console := console w @
                            [''Failed to save stream '' @ streamId @ '' to file:'']\<rparr>
           in case readStream streamId store' of
                Inl e \<Rightarrow> Inr (result, warned)
              | Inr streamResult \<Rightarrow>
                  (case stringify streamId streamResult of
                     Inl e \<Rightarrow> Inr (result, warned)
                   | Inr jsonText \<Rightarrow>
                       (case writeFile (pathJoin dataDirectory (streamId @ ''.json''))
                               jsonText (files w) of
                          None \<Rightarrow> Inr (result, warned)
                        | Some files' \<Rightarrow>
                            Inr (result, w\<lparr>store := store', files := files'\<rparr>)))))"

section \<open>Predicates of the statements below\<close>

text \<open>A command that adds a product asks for a positive quantity.\<close>

fun addsPositiveQuantity :: "Command \<Rightarrow> bool" where
  "addsPositiveQuantity (AddProductItemToShoppingCart shoppingCartId productItem) = (0 < quantity productItem)"
| "addsPositiveQuantity command = True"

text \<open>Whether an event is a \<^verbatim>\<open>ShoppingCartOpened\<close>.\<close>

fun isOpened :: "ShoppingCartEvent \<Rightarrow> bool" where
  "isOpened (ShoppingCartOpened shoppingCartId customer ts) = True"
| "isOpened event = False"

text \<open>Whether an event is a \<^verbatim>\<open>ProductItemAddedToShoppingCart\<close>.\<close>

fun isAdded :: "ShoppingCartEvent \<Rightarrow> bool" where
  "isAdded (ProductItemAddedToShoppingCart shoppingCartId productItem ts) = True"
| "isAdded event = False"

text \<open>No \<^verbatim>\<open>ShoppingCartOpened\<close> event comes after a \<^verbatim>\<open>ProductItemAddedToShoppingCart\<close> event.\<close>

fun noOpenedAfterAdded :: "ShoppingCartEvent list \<Rightarrow> bool" where
  "noOpenedAfterAdded [] = True"
| "noOpenedAfterAdded (event # events) =
     (if isAdded event then list_all (\<lambda>later. \<not> isOpened later) events
      else noOpenedAfterAdded events)"

text \<open>
  The relation between the \<^verbatim>\<open>cartSummary\<close> of \<^verbatim>\<open>getAllCarts\<close> and the state of the
  decider: same status, same lines, and no product on two lines.
\<close>

definition sameCart :: "CartSummary \<Rightarrow> ShoppingCart \<Rightarrow> bool" where
  "sameCart cartSummary state \<longleftrightarrow>
     cartSummary_status cartSummary = status state
     \<and> linesOfSummary (cartSummary_items cartSummary) = linesOfCart (items state)
     \<and> distinct (map productId (items state))"

section \<open>Facts about the array primitives\<close>

lemma findIndex_none: "(\<forall>x\<in>set xs. \<not> P x) \<Longrightarrow> findIndex P xs = - 1"
  by (induction xs) auto

lemma findIndex_first:
  "(\<forall>x\<in>set pre. \<not> P x) \<Longrightarrow> P y \<Longrightarrow> findIndex P (pre @ y # post) = int (length pre)"
  by (induction pre) (auto simp: Let_def)

lemma find_first:
  "(\<forall>x\<in>set pre. \<not> P x) \<Longrightarrow> P y \<Longrightarrow> find P (pre @ y # post) = Some y"
  by (induction pre) auto

lemma find_none: "(\<forall>x\<in>set xs. \<not> P x) \<Longrightarrow> find P xs = None"
  by (induction xs) auto

lemma elemAt_first: "elemAt (pre @ y # post) (int (length pre)) = Some y"
  by (simp add: elemAt_def)

lemma filterByIndex_all: "(\<forall>j. k \<le> j \<longrightarrow> P j) \<Longrightarrow> filterByIndex P k xs = xs"
  by (induction xs arbitrary: k) auto

lemma filterByIndex_drop:
  "filterByIndex (\<lambda>index. index \<noteq> k + int (length pre)) k (pre @ y # post) = pre @ post"
proof (induction pre arbitrary: k)
  case Nil
  have "filterByIndex (\<lambda>index. index \<noteq> k) (k + 1) post = post"
    by (rule filterByIndex_all) auto
  then show ?case by simp
next
  case (Cons a pre)
  have "k + int (length (a # pre)) = (k + 1) + int (length pre)" by simp
  then show ?case using Cons.IH [of "k + 1"] by (simp add: add.assoc)
qed

lemma first_split:
  "\<exists>x\<in>set xs. P x \<Longrightarrow> \<exists>pre y post. xs = pre @ y # post \<and> (\<forall>x\<in>set pre. \<not> P x) \<and> P y"
  using split_list_first_prop [of xs P] by blast

lemma updateFirst_first:
  "(\<forall>x\<in>set pre. \<not> P x) \<Longrightarrow> P y \<Longrightarrow> updateFirst P f (pre @ y # post) = pre @ f y # post"
  by (induction pre) auto

lemma filter_all: "(\<forall>x\<in>set xs. P x) \<Longrightarrow> filter P xs = xs"
  by (induction xs) auto

section \<open>Facts about the decider\<close>

lemma mergeProductItems_present:
  assumes "\<forall>x\<in>set pre. productId x \<noteq> productId p" and "productId y = productId p"
  shows "mergeProductItems (pre @ y # post) p
           = Inr (pre @ y\<lparr>quantity := quantity y + quantity p\<rparr> # post)"
  using assms
  by (simp add: mergeProductItems_def findIndex_first elemAt_first)

lemma mergeProductItems_absent:
  assumes "\<forall>x\<in>set its. productId x \<noteq> productId p"
  shows "mergeProductItems its p = Inr (its @ [p])"
  using assms by (simp add: mergeProductItems_def findIndex_none)

lemma removeProductItems_present:
  assumes "\<forall>x\<in>set pre. productId x \<noteq> productId p" and "productId y = productId p"
  shows "removeProductItems (pre @ y # post) p
           = Inr (if quantity y - quantity p \<le> 0 then pre @ post
                  else pre @ y\<lparr>quantity := quantity y - quantity p\<rparr> # post)"
  using assms filterByIndex_drop [of 0 pre y post]
  by (simp add: removeProductItems_def findIndex_first elemAt_first Let_def)

lemma removeProductItems_absent:
  assumes "\<forall>x\<in>set its. productId x \<noteq> productId p"
  shows "removeProductItems its p = Inr its"
  using assms by (simp add: removeProductItems_def findIndex_none)

lemma mergeProductItems_total: "\<exists>its'. mergeProductItems its p = Inr its'"
proof (cases "\<exists>x\<in>set its. productId x = productId p")
  case True
  then obtain pre y post where "its = pre @ y # post"
    "\<forall>x\<in>set pre. productId x \<noteq> productId p" "productId y = productId p"
    using first_split [of its "\<lambda>x. productId x = productId p"] by blast
  then show ?thesis using mergeProductItems_present by blast
next
  case False
  then show ?thesis using mergeProductItems_absent by blast
qed

lemma removeProductItems_total: "\<exists>its'. removeProductItems its p = Inr its'"
proof (cases "\<exists>x\<in>set its. productId x = productId p")
  case True
  then obtain pre y post where "its = pre @ y # post"
    "\<forall>x\<in>set pre. productId x \<noteq> productId p" "productId y = productId p"
    using first_split [of its "\<lambda>x. productId x = productId p"] by blast
  then show ?thesis using removeProductItems_present [of pre p y post] by auto
next
  case False
  then show ?thesis using removeProductItems_absent by blast
qed

lemma evolve_total: "\<exists>state'. evolve state event = Inr state'"
proof (cases event)
  case (ProductItemAddedToShoppingCart c p t)
  then show ?thesis using mergeProductItems_total [of "items state" p] by auto
next
  case (ProductItemRemovedFromShoppingCart c p t)
  then show ?thesis using removeProductItems_total [of "items state" p] by auto
qed simp_all

lemma foldEvents_total: "\<exists>state'. foldEvents state events = Inr state'"
proof (induction events arbitrary: state)
  case Nil
  show ?case by simp
next
  case (Cons e es)
  obtain s1 where "evolve state e = Inr s1" using evolve_total by blast
  then show ?case using Cons.IH [of s1] by simp
qed

lemma mergeProductItems_positive:
  assumes "\<forall>x\<in>set its. 0 < quantity x" and "0 < quantity p"
    and "mergeProductItems its p = Inr its'"
  shows "\<forall>x\<in>set its'. 0 < quantity x"
proof (cases "\<exists>x\<in>set its. productId x = productId p")
  case True
  then obtain pre y post where d: "its = pre @ y # post"
    "\<forall>x\<in>set pre. productId x \<noteq> productId p" "productId y = productId p"
    using first_split [of its "\<lambda>x. productId x = productId p"] by blast
  then have "its' = pre @ y\<lparr>quantity := quantity y + quantity p\<rparr> # post"
    using assms(3) mergeProductItems_present [of pre p y post] by simp
  then show ?thesis using assms(1,2) d(1) by auto
next
  case False
  then have "its' = its @ [p]"
    using assms(3) mergeProductItems_absent [of its p] by simp
  then show ?thesis using assms(1,2) by auto
qed

lemma removeProductItems_positive:
  assumes "\<forall>x\<in>set its. 0 < quantity x" and "removeProductItems its p = Inr its'"
  shows "\<forall>x\<in>set its'. 0 < quantity x"
proof (cases "\<exists>x\<in>set its. productId x = productId p")
  case True
  then obtain pre y post where d: "its = pre @ y # post"
    "\<forall>x\<in>set pre. productId x \<noteq> productId p" "productId y = productId p"
    using first_split [of its "\<lambda>x. productId x = productId p"] by blast
  then have "its' = (if quantity y - quantity p \<le> 0 then pre @ post
                     else pre @ y\<lparr>quantity := quantity y - quantity p\<rparr> # post)"
    using assms(2) removeProductItems_present [of pre p y post] by simp
  then show ?thesis using assms(1) d(1) by (auto split: if_splits)
next
  case False
  then have "its' = its"
    using assms(2) removeProductItems_absent [of its p] by simp
  then show ?thesis using assms(1) by simp
qed

lemma decide_event:
  assumes "decide command state now = Inr event"
  shows "(case command of
            OpenShoppingCart c u \<Rightarrow> event = ShoppingCartOpened c u now
          | AddProductItemToShoppingCart c p \<Rightarrow> event = ProductItemAddedToShoppingCart c p now
          | RemoveProductItemFromShoppingCart c p \<Rightarrow> event = ProductItemRemovedFromShoppingCart c p now
          | ConfirmShoppingCart c \<Rightarrow> event = ShoppingCartConfirmed c now
          | CancelShoppingCart c \<Rightarrow> event = ShoppingCartCancelled c now
          | UnknownCommand tag \<Rightarrow> False)"
  using assms
  by (cases command)
     (auto simp: openShoppingCart_def addProductItem_def removeProductItem_def
        confirmShoppingCart_def cancelShoppingCart_def split: if_splits option.splits)

lemma step_positive:
  assumes "\<forall>x\<in>set (items state). 0 < quantity x" and "addsPositiveQuantity command"
    and "decide command state now = Inr event" and "evolve state event = Inr state'"
  shows "\<forall>x\<in>set (items state'). 0 < quantity x"
proof (cases command)
  case (AddProductItemToShoppingCart c p)
  then have e: "event = ProductItemAddedToShoppingCart c p now"
    using decide_event [OF assms(3)] by simp
  then obtain its' where "mergeProductItems (items state) p = Inr its'" "state' = state\<lparr>items := its'\<rparr>"
    using assms(4) by (auto split: sum.splits)
  then show ?thesis
    using mergeProductItems_positive [of "items state" p its'] assms(1,2) AddProductItemToShoppingCart
    by simp
next
  case (RemoveProductItemFromShoppingCart c p)
  then have e: "event = ProductItemRemovedFromShoppingCart c p now"
    using decide_event [OF assms(3)] by simp
  then obtain its' where "removeProductItems (items state) p = Inr its'" "state' = state\<lparr>items := its'\<rparr>"
    using assms(4) by (auto split: sum.splits)
  then show ?thesis
    using removeProductItems_positive [of "items state" p its'] assms(1) by simp
next
  case (OpenShoppingCart c u)
  then show ?thesis using decide_event [OF assms(3)] assms(4) by auto
next
  case (ConfirmShoppingCart c)
  then show ?thesis using decide_event [OF assms(3)] assms(1,4) by auto
next
  case (CancelShoppingCart c)
  then show ?thesis using decide_event [OF assms(3)] assms(1,4) by auto
next
  case (UnknownCommand tag)
  then show ?thesis using assms(3) by simp
qed

lemma runCommands_positive:
  assumes "\<forall>x\<in>set (items state). 0 < quantity x"
    and "\<forall>(command, now)\<in>set commands. addsPositiveQuantity command"
    and "runCommands state commands = Inr state'"
  shows "\<forall>x\<in>set (items state'). 0 < quantity x"
  using assms
proof (induction commands arbitrary: state)
  case Nil
  then show ?case by simp
next
  case (Cons cn rest)
  obtain command now where cn: "cn = (command, now)" by (cases cn)
  from Cons.prems(3) cn obtain event s1 where
    d: "decide command state now = Inr event" and e: "evolve state event = Inr s1"
    and r: "runCommands s1 rest = Inr state'"
    by (auto split: sum.splits)
  have "addsPositiveQuantity command" using Cons.prems(2) cn by auto
  then have "\<forall>x\<in>set (items s1). 0 < quantity x"
    using step_positive [OF Cons.prems(1) _ d e] by simp
  moreover have "\<forall>(command, now)\<in>set rest. addsPositiveQuantity command"
    using Cons.prems(2) by simp
  ultimately show ?case using Cons.IH [of s1] r by blast
qed

section \<open>Facts about the cart summary projection\<close>

lemma calculateTotals_foldl:
  "foldl (\<lambda>(amount, count) item.
            (amount + unitPrice item * real_of_int (quantity item), count + quantity item))
     (a, c) its
   = (a + sum_list (map (\<lambda>item. unitPrice item * real_of_int (quantity item)) its),
      c + sum_list (map quantity its))"
  by (induction its arbitrary: a c) (auto simp: algebra_simps)

lemma calculateTotals_sums:
  "calculateTotals its
   = (sum_list (map (\<lambda>item. unitPrice item * real_of_int (quantity item)) its),
      sum_list (map quantity its))"
  unfolding calculateTotals_def using calculateTotals_foldl [of 0 0 its] by simp

lemma evolveShoppingCartSummary_consistent:
  assumes "evolveShoppingCartSummary document event = Inr (Some doc')"
    and "\<forall>doc. document = Some doc \<longrightarrow> totalsConsistent doc"
  shows "totalsConsistent doc'"
proof (cases event)
  case (ShoppingCartOpened c u t)
  then show ?thesis using assms(1) by (auto simp: totalsConsistent_def)
next
  case (ProductItemAddedToShoppingCart c p t)
  then show ?thesis using assms(1)
    by (auto simp: totalsConsistent_def calculateTotals_sums Let_def
        split: option.splits sum.splits)
next
  case (ProductItemRemovedFromShoppingCart c p t)
  then show ?thesis using assms(1)
    by (auto simp: totalsConsistent_def calculateTotals_sums Let_def
        split: option.splits sum.splits)
next
  case (ShoppingCartConfirmed c t)
  then show ?thesis using assms
    by (auto simp: totalsConsistent_def split: option.splits)
next
  case (ShoppingCartCancelled c t)
  then show ?thesis using assms
    by (auto simp: totalsConsistent_def split: option.splits)
next
  case (UnrecognizedEvent tag)
  then show ?thesis using assms by auto
qed

lemma foldShoppingCartSummary_consistent:
  assumes "foldShoppingCartSummary document events = Inr (Some doc')"
    and "\<forall>doc. document = Some doc \<longrightarrow> totalsConsistent doc"
  shows "totalsConsistent doc'"
  using assms
proof (induction events arbitrary: document)
  case Nil
  then show ?case by simp
next
  case (Cons e es)
  then obtain d1 where s: "evolveShoppingCartSummary document e = Inr d1"
    and r: "foldShoppingCartSummary d1 es = Inr (Some doc')"
    by (auto split: sum.splits)
  have "\<forall>doc. d1 = Some doc \<longrightarrow> totalsConsistent doc"
    using evolveShoppingCartSummary_consistent [of document e] s Cons.prems(2) by blast
  then show ?case using Cons.IH [OF r] by blast
qed

lemma evolveShoppingCartSummary_total:
  "\<exists>document'. evolveShoppingCartSummary document event = Inr document'"
proof (cases event)
  case (ProductItemAddedToShoppingCart c p t)
  then show ?thesis
    using mergeProductItems_total [of "summary_items (the document)" p]
    by (cases document) (auto simp: Let_def)
next
  case (ProductItemRemovedFromShoppingCart c p t)
  then show ?thesis
    using removeProductItems_total [of "summary_items (the document)" p]
    by (cases document) (auto simp: Let_def)
qed (auto split: option.splits)

lemma foldShoppingCartSummary_total:
  "\<exists>document'. foldShoppingCartSummary document events = Inr document'"
proof (induction events arbitrary: document)
  case Nil
  show ?case by simp
next
  case (Cons e es)
  obtain d1 where "evolveShoppingCartSummary document e = Inr d1"
    using evolveShoppingCartSummary_total by blast
  then show ?case using Cons.IH [of d1] by simp
qed

section \<open>Facts about the customer summary projection\<close>

lemma customer_summary_untracked_siblings:
  assumes "\<forall>cart\<in>set (carts doc). entry_id cart \<noteq> shoppingCartId"
  shows "evolveCustomerShoppingSummary (Some doc)
           (ProductItemAddedToShoppingCart shoppingCartId productItem ts) streamId = Inr (Some doc)
       \<and> evolveCustomerShoppingSummary (Some doc)
           (ShoppingCartConfirmed shoppingCartId ts) streamId = Inr (Some doc)
       \<and> evolveCustomerShoppingSummary (Some doc)
           (ShoppingCartCancelled shoppingCartId ts) streamId = Inr (Some doc)"
  using findIndex_none [of "carts doc" "\<lambda>cart. entry_id cart = shoppingCartId"] assms
  by simp

section \<open>Facts about the fold of getAllCarts\<close>

lemma lines_productIds:
  "linesOfSummary g = linesOfCart its \<Longrightarrow> map line_productId g = map productId its"
proof -
  assume "linesOfSummary g = linesOfCart its"
  then have "map fst (linesOfSummary g) = map fst (linesOfCart its)" by simp
  then show ?thesis by (simp add: linesOfSummary_def linesOfCart_def comp_def)
qed

lemma lines_split:
  assumes "linesOfSummary g = linesOfCart (pre @ y # post)"
  obtains gpre gy gpost where "g = gpre @ gy # gpost"
    "linesOfSummary gpre = linesOfCart pre" "linesOfSummary gpost = linesOfCart post"
    "line_productId gy = productId y" "line_quantity gy = quantity y" "price gy = unitPrice y"
  using assms
  by (auto simp: linesOfSummary_def linesOfCart_def map_eq_append_conv map_eq_Cons_conv)

lemma lines_absent:
  assumes "linesOfSummary g = linesOfCart its"
  shows "(\<forall>x\<in>set g. line_productId x \<noteq> pid) \<longleftrightarrow> (\<forall>x\<in>set its. productId x \<noteq> pid)"
proof -
  have "set (map line_productId g) = set (map productId its)"
    using lines_productIds [OF assms] by simp
  then have "line_productId ` set g = productId ` set its" by simp
  then show ?thesis by (metis (no_types, lifting) image_iff)
qed

lemma sameCart_added:
  assumes "sameCart cartSummary state"
    and "evolve state (ProductItemAddedToShoppingCart c p t) = Inr state'"
  shows "sameCart (cartSummaryStep cartSummary (ProductItemAddedToShoppingCart c p t)) state'"
proof (cases "\<exists>x\<in>set (items state). productId x = productId p")
  case True
  then obtain pre y post where d: "items state = pre @ y # post"
    "\<forall>x\<in>set pre. productId x \<noteq> productId p" "productId y = productId p"
    using first_split [of "items state" "\<lambda>x. productId x = productId p"] by blast
  have l: "linesOfSummary (cartSummary_items cartSummary) = linesOfCart (pre @ y # post)"
    using assms(1) d(1) by (simp add: sameCart_def)
  obtain gpre gy gpost where g: "cartSummary_items cartSummary = gpre @ gy # gpost"
    "linesOfSummary gpre = linesOfCart pre" "linesOfSummary gpost = linesOfCart post"
    "line_productId gy = productId y" "line_quantity gy = quantity y" "price gy = unitPrice y"
    using lines_split [OF l] by metis
  have gp: "\<forall>x\<in>set gpre. line_productId x \<noteq> productId p"
    using lines_absent [OF g(2)] d(2) by simp
  have s': "state' = state\<lparr>items := pre @ y\<lparr>quantity := quantity y + quantity p\<rparr> # post\<rparr>"
    using assms(2) d mergeProductItems_present [of pre p y post] by simp
  have f: "find (\<lambda>item. line_productId item = productId p) (cartSummary_items cartSummary) = Some gy"
    using g(1,4) gp d(3) find_first [of gpre "\<lambda>item. line_productId item = productId p" gy gpost]
    by simp
  have u: "updateFirst (\<lambda>item. line_productId item = productId p)
             (\<lambda>item. item\<lparr>line_quantity := line_quantity item + quantity p\<rparr>)
             (cartSummary_items cartSummary)
           = gpre @ gy\<lparr>line_quantity := line_quantity gy + quantity p\<rparr> # gpost"
    using g(1,4) gp d(3) updateFirst_first [of gpre "\<lambda>item. line_productId item = productId p" gy]
    by simp
  show ?thesis
    using assms(1) f u s' g d(1)
    by (simp add: sameCart_def linesOfSummary_def linesOfCart_def)
next
  case False
  then have a: "\<forall>x\<in>set (items state). productId x \<noteq> productId p" by simp
  have l: "linesOfSummary (cartSummary_items cartSummary) = linesOfCart (items state)"
    using assms(1) by (simp add: sameCart_def)
  have "\<forall>x\<in>set (cartSummary_items cartSummary). line_productId x \<noteq> productId p"
    using lines_absent [OF l] a by simp
  then have f: "find (\<lambda>item. line_productId item = productId p) (cartSummary_items cartSummary) = None"
    by (intro find_none) simp
  have s': "state' = state\<lparr>items := items state @ [p]\<rparr>"
    using assms(2) mergeProductItems_absent [OF a] by simp
  show ?thesis
    using assms(1) f s' a
    by (auto simp: sameCart_def linesOfSummary_def linesOfCart_def)
qed

lemma sameCart_removed:
  assumes "sameCart cartSummary state"
    and "evolve state (ProductItemRemovedFromShoppingCart c p t) = Inr state'"
  shows "sameCart (cartSummaryStep cartSummary (ProductItemRemovedFromShoppingCart c p t)) state'"
proof (cases "\<exists>x\<in>set (items state). productId x = productId p")
  case True
  then obtain pre y post where d: "items state = pre @ y # post"
    "\<forall>x\<in>set pre. productId x \<noteq> productId p" "productId y = productId p"
    using first_split [of "items state" "\<lambda>x. productId x = productId p"] by blast
  have dist: "distinct (map productId (pre @ y # post))"
    using assms(1) d(1) by (simp add: sameCart_def)
  then have "productId y \<notin> productId ` set post" by simp
  then have dp: "\<forall>x\<in>set post. productId x \<noteq> productId p"
    using d(3) by (metis imageI)
  have l: "linesOfSummary (cartSummary_items cartSummary) = linesOfCart (pre @ y # post)"
    using assms(1) d(1) by (simp add: sameCart_def)
  obtain gpre gy gpost where g: "cartSummary_items cartSummary = gpre @ gy # gpost"
    "linesOfSummary gpre = linesOfCart pre" "linesOfSummary gpost = linesOfCart post"
    "line_productId gy = productId y" "line_quantity gy = quantity y" "price gy = unitPrice y"
    using lines_split [OF l] by metis
  have gp: "\<forall>x\<in>set gpre. line_productId x \<noteq> productId p"
    using lines_absent [OF g(2)] d(2) by simp
  have gq: "\<forall>x\<in>set gpost. line_productId x \<noteq> productId p"
    using lines_absent [OF g(3)] dp by simp
  have s': "state' = state\<lparr>items :=
              if quantity y - quantity p \<le> 0 then pre @ post
              else pre @ y\<lparr>quantity := quantity y - quantity p\<rparr> # post\<rparr>"
    using assms(2) d removeProductItems_present [of pre p y post] by simp
  have f: "find (\<lambda>item. line_productId item = productId p) (cartSummary_items cartSummary) = Some gy"
    using g(1,4) gp d(3) find_first [of gpre "\<lambda>item. line_productId item = productId p" gy gpost]
    by simp
  have u: "updateFirst (\<lambda>item. line_productId item = productId p)
             (\<lambda>item. item\<lparr>line_quantity := line_quantity item - quantity p\<rparr>)
             (cartSummary_items cartSummary)
           = gpre @ gy\<lparr>line_quantity := line_quantity gy - quantity p\<rparr> # gpost"
    using g(1,4) gp d(3) updateFirst_first [of gpre "\<lambda>item. line_productId item = productId p" gy]
    by simp
  have fl: "filter (\<lambda>item. line_productId item \<noteq> productId p)
              (gpre @ gy\<lparr>line_quantity := line_quantity gy - quantity p\<rparr> # gpost)
            = gpre @ gpost"
    using gp gq g(4) d(3) by (simp add: filter_all)
  show ?thesis
  proof (cases "quantity y - quantity p \<le> 0")
    case True
    then show ?thesis
      using assms(1) f u fl s' g(2,3,5) dist d(1)
      by (simp add: sameCart_def linesOfSummary_def linesOfCart_def Let_def)
  next
    case False
    then show ?thesis
      using assms(1) f u s' g dist d(1)
      by (simp add: sameCart_def linesOfSummary_def linesOfCart_def Let_def)
  qed
next
  case False
  then have a: "\<forall>x\<in>set (items state). productId x \<noteq> productId p" by simp
  have l: "linesOfSummary (cartSummary_items cartSummary) = linesOfCart (items state)"
    using assms(1) by (simp add: sameCart_def)
  have "\<forall>x\<in>set (cartSummary_items cartSummary). line_productId x \<noteq> productId p"
    using lines_absent [OF l] a by simp
  then have f: "find (\<lambda>item. line_productId item = productId p) (cartSummary_items cartSummary) = None"
    by (intro find_none) simp
  have s': "state' = state"
    using assms(2) removeProductItems_absent [OF a] by simp
  show ?thesis using assms(1) f s' by simp
qed

lemma sameCart_step:
  assumes "sameCart cartSummary state" and "\<not> isOpened event"
    and "evolve state event = Inr state'"
  shows "sameCart (cartSummaryStep cartSummary event) state'"
proof (cases event)
  case (ShoppingCartOpened c u t)
  then show ?thesis using assms(2) by simp
next
  case (ProductItemAddedToShoppingCart c p t)
  then show ?thesis using sameCart_added assms(1,3) by simp
next
  case (ProductItemRemovedFromShoppingCart c p t)
  then show ?thesis using sameCart_removed assms(1,3) by simp
next
  case (ShoppingCartConfirmed c t)
  then show ?thesis using assms(1,3) by (auto simp: sameCart_def)
next
  case (ShoppingCartCancelled c t)
  then show ?thesis using assms(1,3) by (auto simp: sameCart_def)
next
  case (UnrecognizedEvent tag)
  then show ?thesis using assms(1,3) by auto
qed

lemma sameCart_fold:
  assumes "sameCart cartSummary state" and "\<forall>event\<in>set events. \<not> isOpened event"
    and "foldEvents state events = Inr state'"
  shows "sameCart (cartSummaryFold cartSummary events) state'"
  using assms
proof (induction events arbitrary: cartSummary state)
  case Nil
  then show ?case by simp
next
  case (Cons e es)
  then obtain s1 where s: "evolve state e = Inr s1" and r: "foldEvents s1 es = Inr state'"
    by (auto split: sum.splits)
  have "sameCart (cartSummaryStep cartSummary e) s1"
    using sameCart_step [OF Cons.prems(1) _ s] Cons.prems(2) by simp
  then show ?case using Cons.IH [of "cartSummaryStep cartSummary e" s1] Cons.prems(2) r by simp
qed

lemma sameCart_empty_step:
  assumes "sameCart cartSummary state" and "cartSummary_items cartSummary = []"
    and "items state = []" and "\<not> isAdded event" and "evolve state event = Inr state'"
  shows "sameCart (cartSummaryStep cartSummary event) state'
         \<and> cartSummary_items (cartSummaryStep cartSummary event) = [] \<and> items state' = []"
  using assms
  by (cases event)
     (auto simp: sameCart_def linesOfSummary_def linesOfCart_def removeProductItems_def)

lemma sameCart_fold_empty:
  assumes "sameCart cartSummary state" and "cartSummary_items cartSummary = []"
    and "items state = []" and "noOpenedAfterAdded events"
    and "foldEvents state events = Inr state'"
  shows "sameCart (cartSummaryFold cartSummary events) state'"
  using assms
proof (induction events arbitrary: cartSummary state)
  case Nil
  then show ?case by simp
next
  case (Cons e es)
  then obtain s1 where s: "evolve state e = Inr s1" and r: "foldEvents s1 es = Inr state'"
    by (auto split: sum.splits)
  show ?case
  proof (cases "isAdded e")
    case True
    then have "\<not> isOpened e" by (cases e) auto
    then have one: "sameCart (cartSummaryStep cartSummary e) s1"
      using sameCart_step [OF Cons.prems(1) _ s] by simp
    have "\<forall>event\<in>set es. \<not> isOpened event"
      using Cons.prems(4) True by (simp add: list_all_iff)
    then show ?thesis using sameCart_fold [OF one _ r] by simp
  next
    case False
    then have "sameCart (cartSummaryStep cartSummary e) s1
         \<and> cartSummary_items (cartSummaryStep cartSummary e) = [] \<and> items s1 = []"
      using sameCart_empty_step [OF Cons.prems(1,2,3) _ s] by simp
    moreover have "noOpenedAfterAdded es" using Cons.prems(4) False by simp
    ultimately show ?thesis
      using Cons.IH [of "cartSummaryStep cartSummary e" s1] r by simp
  qed
qed

lemma status_step:
  assumes "cartSummary_status cartSummary = status state" and "evolve state event = Inr state'"
  shows "cartSummary_status (cartSummaryStep cartSummary event) = status state'"
  using assms
  by (cases event) (auto split: sum.splits option.splits simp: Let_def)

lemma status_fold:
  assumes "cartSummary_status cartSummary = status state"
    and "foldEvents state events = Inr state'"
  shows "cartSummary_status (cartSummaryFold cartSummary events) = status state'"
  using assms
proof (induction events arbitrary: cartSummary state)
  case Nil
  then show ?case by simp
next
  case (Cons e es)
  then obtain s1 where s: "evolve state e = Inr s1" and r: "foldEvents s1 es = Inr state'"
    by (auto split: sum.splits)
  show ?case
    using Cons.IH [of "cartSummaryStep cartSummary e" s1] status_step [OF Cons.prems(1) s] r
    by simp
qed

section \<open>The claims\<close>

subsection \<open>C1: a failed file write and the result of the append\<close>

text \<open>
  C1 says that \<^verbatim>\<open>appendToStream\<close> returns success only if the file write completed.
  The code wraps the read-back and the write in \<^verbatim>\<open>try { ... } catch\<close>, logs a warning
  and returns the result of the in-memory append. What holds: the append fails exactly
  when the in-memory append fails, with that error; when the in-memory append returns
  \<open>result\<close>, the append returns \<open>result\<close> with the store advanced, and either the
  files are as before and one warning is logged, or the stream read back was written
  and nothing is logged; and when the write fails, it is the former.
\<close>

theorem appendToStream_reports_memory_append:
  "(\<forall>e. originalAppendToStream streamId events options (store w) = Inl e \<longrightarrow>
        appendToStream originalAppendToStream readStream stringify pathJoin writeFile
          dataDirectory streamId events options w = Inl e)
   \<and> (\<forall>result store'.
        originalAppendToStream streamId events options (store w) = Inr (result, store') \<longrightarrow>
        (\<exists>w'. appendToStream originalAppendToStream readStream stringify pathJoin writeFile
                 dataDirectory streamId events options w = Inr (result, w')
              \<and> store w' = store'
              \<and> ((files w' = files w
                   \<and> console w' = console w @
                        [''Failed to save stream '' @ streamId @ '' to file:''])
                  \<or> (\<exists>streamResult jsonText.
                        readStream streamId store' = Inr streamResult
                        \<and> stringify streamId streamResult = Inr jsonText
                        \<and> writeFile (pathJoin dataDirectory (streamId @ ''.json''))
                              jsonText (files w) = Some (files w')
                        \<and> console w' = console w)))
        \<and> ((\<forall>streamResult jsonText.
               readStream streamId store' = Inr streamResult
               \<and> stringify streamId streamResult = Inr jsonText \<longrightarrow>
               writeFile (pathJoin dataDirectory (streamId @ ''.json''))
                 jsonText (files w) = None) \<longrightarrow>
             appendToStream originalAppendToStream readStream stringify pathJoin writeFile
               dataDirectory streamId events options w
             = Inr (result,
                 w\<lparr>store := store',
                   console := console w @
                     [''Failed to save stream '' @ streamId @ '' to file:'']\<rparr>)))"
  by (auto simp: appendToStream_def Let_def split: sum.splits option.splits)

theorem appendToStream_reports_memory_append_witness:
  "appendToStream
     (\<lambda>streamId events options memory. Inr (length (memory @ events), memory @ events))
     (\<lambda>streamId memory. Inr memory)
     (\<lambda>streamId streamResult. Inr ''{}'')
     (\<lambda>directory file. directory @ ''/'' @ file)
     (\<lambda>path content disk. None)
     ''data/events'' ''cart-2''
     [ShoppingCartOpened ''cart-2'' ''customer-9'' 1, ShoppingCartCancelled ''cart-2'' 2] ()
     \<lparr>store = [], files = [(''data/events/cart-1.json'', ''{}'')], console = []\<rparr>
   = (Inr (2, \<lparr>store = [ShoppingCartOpened ''cart-2'' ''customer-9'' 1,
                         ShoppingCartCancelled ''cart-2'' 2],
               files = [(''data/events/cart-1.json'', ''{}'')],
               console = [''Failed to save stream cart-2 to file:'']\<rparr>)
       :: string + nat \<times> (ShoppingCartEvent list, (string \<times> string) list) world)"
  using appendToStream_reports_memory_append
    [of "\<lambda>streamId events options memory.
           (Inr (length (memory @ events), memory @ events)
              :: string + nat \<times> ShoppingCartEvent list)"
        "''cart-2''"
        "[ShoppingCartOpened ''cart-2'' ''customer-9'' 1, ShoppingCartCancelled ''cart-2'' 2]"
        "()"
        "\<lparr>store = [], files = [(''data/events/cart-1.json'', ''{}'')], console = []\<rparr>"
        "\<lambda>streamId memory. Inr memory"
        "\<lambda>streamId streamResult. Inr ''{}''"
        "\<lambda>directory file. directory @ ''/'' @ file"
        "\<lambda>path content disk. None"
        "''data/events''"]
  by simp

text \<open>
  The write fails (\<open>writeFile\<close> returns \<open>None\<close>) and the append of one event to the
  stream \<^verbatim>\<open>cart-1\<close> still returns its result, version 1, with no file written.
\<close>

theorem appendToStream_failed_write_counterexample:
  "appendToStream
     (\<lambda>streamId events options memory. Inr (length (memory @ events), memory @ events))
     (\<lambda>streamId memory. Inr memory)
     (\<lambda>streamId streamResult. Inr ''{}'')
     (\<lambda>directory file. directory @ ''/'' @ file)
     (\<lambda>path content disk. None)
     ''data/events'' ''cart-1'' [ShoppingCartOpened ''cart-1'' ''customer-9'' 1] ()
     \<lparr>store = [], files = ([] :: (string \<times> string) list), console = []\<rparr>
   = (Inr (1, \<lparr>store = [ShoppingCartOpened ''cart-1'' ''customer-9'' 1], files = [],
               console = [''Failed to save stream cart-1 to file:'']\<rparr>)
       :: string + nat \<times> (ShoppingCartEvent list, (string \<times> string) list) world)"
  by (simp add: appendToStream_def)

subsection \<open>C2: commands against the initial state\<close>

text \<open>
  C2 says that every command but \<^verbatim>\<open>OpenShoppingCart\<close> is rejected on the initial state.
  \<^verbatim>\<open>initialState\<close> has status \<^verbatim>\<open>'Opened'\<close> and no items, and the handlers test the
  status only. What holds on the initial state: removing a product and confirming are
  rejected with \<^verbatim>\<open>IllegalStateError\<close> (no such item, empty cart), while adding a
  product and cancelling return their events.
\<close>

theorem initial_state_commands:
  "decide (RemoveProductItemFromShoppingCart shoppingCartId item) (initialState clock) now
     = Inl (IllegalStateError ''Product item not found in shopping cart'')
   \<and> decide (ConfirmShoppingCart shoppingCartId) (initialState clock) now
     = Inl (IllegalStateError ''Cannot confirm an empty shopping cart'')
   \<and> decide (AddProductItemToShoppingCart shoppingCartId pricedItem) (initialState clock) now
     = Inr (ProductItemAddedToShoppingCart shoppingCartId pricedItem now)
   \<and> decide (CancelShoppingCart shoppingCartId) (initialState clock) now
     = Inr (ShoppingCartCancelled shoppingCartId now)"
  by (simp add: initialState_def removeProductItem_def confirmShoppingCart_def
      addProductItem_def cancelShoppingCart_def)

theorem initial_state_commands_witness:
  "decide (RemoveProductItemFromShoppingCart ''cart-1''
        \<lparr>productId = ''productA'', productName = ''A'', quantity = 1\<rparr>) (initialState 0) 7
     = Inl (IllegalStateError ''Product item not found in shopping cart'')
   \<and> decide (ConfirmShoppingCart ''cart-1'') (initialState 0) 7
     = Inl (IllegalStateError ''Cannot confirm an empty shopping cart'')
   \<and> decide (AddProductItemToShoppingCart ''cart-1''
        \<lparr>productId = ''productA'', productName = ''A'', quantity = 2, unitPrice = 10\<rparr>)
        (initialState 0) 7
     = Inr (ProductItemAddedToShoppingCart ''cart-1''
        \<lparr>productId = ''productA'', productName = ''A'', quantity = 2, unitPrice = 10\<rparr> 7)
   \<and> decide (CancelShoppingCart ''cart-1'') (initialState 0) 7
     = Inr (ShoppingCartCancelled ''cart-1'' 7)"
  using initial_state_commands [of "''cart-1''"
      "\<lparr>productId = ''productA'', productName = ''A'', quantity = 1\<rparr>" 0 7
      "\<lparr>productId = ''productA'', productName = ''A'', quantity = 2, unitPrice = 10\<rparr>"]
  by simp

text \<open>Adding a product to, and cancelling, a cart that was never opened is accepted.\<close>

theorem initial_state_add_accepted:
  "decide (AddProductItemToShoppingCart ''cart-1''
        \<lparr>productId = ''productA'', productName = ''A'', quantity = 2, unitPrice = 10\<rparr>)
        (initialState 0) 7
     = Inr (ProductItemAddedToShoppingCart ''cart-1''
        \<lparr>productId = ''productA'', productName = ''A'', quantity = 2, unitPrice = 10\<rparr> 7)
   \<and> decide (CancelShoppingCart ''cart-1'') (initialState 0) 7
     = Inr (ShoppingCartCancelled ''cart-1'' 7)"
  by (simp add: initialState_def addProductItem_def cancelShoppingCart_def)

subsection \<open>C3: the quantities of the items of a reachable state\<close>

text \<open>
  C3 says that every item of a reachable opened state has a positive quantity. The
  decider accepts an added product whatever its quantity, so the claim needs the added
  quantities to be positive. What holds: the state reached from the initial state by
  commands that \<^verbatim>\<open>decide\<close> accepts, each adding command asking for a positive quantity,
  has only items of positive quantity (whatever its status).
\<close>

theorem quantity_invariant:
  assumes "runCommands (initialState clock) commands = Inr state"
    and "\<forall>(command, now)\<in>set commands. addsPositiveQuantity command"
  shows "\<forall>item\<in>set (items state). 0 < quantity item"
  using runCommands_positive [of "initialState clock" commands state] assms
  by (simp add: initialState_def)

theorem quantity_invariant_witness:
  "runCommands (initialState 0)
     [(OpenShoppingCart ''cart-1'' ''customer-9'', 1),
      (AddProductItemToShoppingCart ''cart-1''
         \<lparr>productId = ''productA'', productName = ''A'', quantity = 2, unitPrice = 10\<rparr>, 2),
      (AddProductItemToShoppingCart ''cart-1''
         \<lparr>productId = ''productB'', productName = ''B'', quantity = 1, unitPrice = 5\<rparr>, 3),
      (RemoveProductItemFromShoppingCart ''cart-1''
         \<lparr>productId = ''productB'', productName = ''B'', quantity = 1\<rparr>, 4)]
   = Inr \<lparr>cart_id = ''cart-1'', customerId = ''customer-9'', status = Opened,
          items = [\<lparr>productId = ''productA'', productName = ''A'', quantity = 2, unitPrice = 10\<rparr>],
          openedAt = 1, confirmedAt = None, cancelledAt = None\<rparr>
   \<and> list_all (\<lambda>item. 0 < quantity item)
        [\<lparr>productId = ''productA'', productName = ''A'', quantity = 2, unitPrice = 10\<rparr>]"
proof -
  let ?commands =
    "[(OpenShoppingCart ''cart-1'' ''customer-9'', 1),
      (AddProductItemToShoppingCart ''cart-1''
         \<lparr>productId = ''productA'', productName = ''A'', quantity = 2, unitPrice = 10\<rparr>, 2),
      (AddProductItemToShoppingCart ''cart-1''
         \<lparr>productId = ''productB'', productName = ''B'', quantity = 1, unitPrice = 5\<rparr>, 3),
      (RemoveProductItemFromShoppingCart ''cart-1''
         \<lparr>productId = ''productB'', productName = ''B'', quantity = 1\<rparr>, 4)]"
  let ?state =
    "\<lparr>cart_id = ''cart-1'', customerId = ''customer-9'', status = Opened,
      items = [\<lparr>productId = ''productA'', productName = ''A'', quantity = 2, unitPrice = 10\<rparr>],
      openedAt = 1, confirmedAt = None, cancelledAt = None\<rparr>"
  have run: "runCommands (initialState 0) ?commands = Inr ?state"
    by (simp add: initialState_def openShoppingCart_def addProductItem_def
        removeProductItem_def mergeProductItems_def removeProductItems_def elemAt_def)
  have adds: "\<forall>(command, now)\<in>set ?commands. addsPositiveQuantity command"
    by simp
  show ?thesis
    using run quantity_invariant [OF run adds] by (simp add: list_all_iff)
qed

text \<open>
  Opening a cart and adding a product with quantity 0 are both accepted, and the opened
  state holds an item of quantity 0.
\<close>

theorem quantity_invariant_counterexample:
  "runCommands (initialState 0)
     [(OpenShoppingCart ''cart-1'' ''customer-9'', 1),
      (AddProductItemToShoppingCart ''cart-1''
         \<lparr>productId = ''productA'', productName = ''A'', quantity = 0, unitPrice = 10\<rparr>, 2)]
   = Inr \<lparr>cart_id = ''cart-1'', customerId = ''customer-9'', status = Opened,
          items = [\<lparr>productId = ''productA'', productName = ''A'', quantity = 0, unitPrice = 10\<rparr>],
          openedAt = 1, confirmedAt = None, cancelledAt = None\<rparr>
   \<and> \<not> list_all (\<lambda>item. 0 < quantity item)
        [\<lparr>productId = ''productA'', productName = ''A'', quantity = 0, unitPrice = 10\<rparr>]"
  by (simp add: initialState_def openShoppingCart_def addProductItem_def mergeProductItems_def)

subsection \<open>C4: an event of a cart the customer document does not track\<close>

text \<open>
  C4 says that \<^verbatim>\<open>evolveCustomerShoppingSummary\<close> returns a document unchanged on a
  non-opening event whose cart is not in \<^verbatim>\<open>carts\<close>. The branches of the added,
  confirmed and cancelled events do so (\<open>customer_summary_untracked_siblings\<close>); the
  branch of \<^verbatim>\<open>ProductItemRemovedFromShoppingCart\<close> never looks the cart up. Evaluated:
  the document tracks \<^verbatim>\<open>cart-1\<close> only, the event removes a product from \<^verbatim>\<open>cart-2\<close> at
  time 5, and the result has \<^verbatim>\<open>lastActivityAt\<close> 5 where the document had 1.
\<close>

theorem customer_summary_removed_untracked:
  "findIndex (\<lambda>cart. entry_id cart = ''cart-2'')
     [\<lparr>entry_id = ''cart-1'', entry_status = ''Opened'', entry_totalAmount = 0,
       entry_openedAt = 1\<rparr>] = - 1
   \<and> evolveCustomerShoppingSummary
       (Some \<lparr>customer_customerId = ''customer-9'', totalCarts = 1, activeCartsCount = 1,
              confirmedCartsCount = 0, cancelledCartsCount = 0, totalSpent = 0,
              lastActivityAt = 1,
              carts = [\<lparr>entry_id = ''cart-1'', entry_status = ''Opened'',
                        entry_totalAmount = 0, entry_openedAt = 1\<rparr>]\<rparr>)
       (ProductItemRemovedFromShoppingCart ''cart-2''
          \<lparr>productId = ''productA'', productName = ''A'', quantity = 1\<rparr> 5)
       ''cart-2''
     = Inr (Some \<lparr>customer_customerId = ''customer-9'', totalCarts = 1, activeCartsCount = 1,
              confirmedCartsCount = 0, cancelledCartsCount = 0, totalSpent = 0,
              lastActivityAt = 5,
              carts = [\<lparr>entry_id = ''cart-1'', entry_status = ''Opened'',
                        entry_totalAmount = 0, entry_openedAt = 1\<rparr>]\<rparr>)"
  by simp

subsection \<open>C5: commands against a confirmed or cancelled cart\<close>

text \<open>
  C5 says that every command is rejected once the status is \<^verbatim>\<open>Confirmed\<close> or
  \<^verbatim>\<open>Cancelled\<close>. The four handlers that test the status reject; \<^verbatim>\<open>openShoppingCart\<close>
  tests \<^verbatim>\<open>state.id !== ''\<close> instead. What holds in a confirmed or cancelled state:
  adding, removing, confirming and cancelling are rejected with \<^verbatim>\<open>IllegalStateError\<close>,
  and opening is rejected with \<^verbatim>\<open>IllegalStateError\<close> when the state's id is not empty
  and returns its event when it is.
\<close>

theorem terminal_state_commands:
  assumes "status state = Confirmed \<or> status state = Cancelled"
  shows "decide (AddProductItemToShoppingCart shoppingCartId pricedItem) state now
           = Inl (IllegalStateError ''Cannot add product to a closed shopping cart'')
       \<and> decide (RemoveProductItemFromShoppingCart shoppingCartId item) state now
           = Inl (IllegalStateError ''Cannot remove product from a closed shopping cart'')
       \<and> decide (ConfirmShoppingCart shoppingCartId) state now
           = Inl (IllegalStateError ''Cannot confirm a shopping cart that is not open'')
       \<and> decide (CancelShoppingCart shoppingCartId) state now
           = Inl (IllegalStateError ''Cannot cancel a shopping cart that is not open'')
       \<and> decide (OpenShoppingCart shoppingCartId customer) state now
           = (if cart_id state \<noteq> ''''
              then Inl (IllegalStateError ''Shopping cart already exists'')
              else Inr (ShoppingCartOpened shoppingCartId customer now))"
  using assms
  by (auto simp: addProductItem_def removeProductItem_def confirmShoppingCart_def
      cancelShoppingCart_def openShoppingCart_def)

theorem terminal_state_commands_witness:
  "status \<lparr>cart_id = ''cart-1'', customerId = ''customer-9'', status = Confirmed, items = [],
         openedAt = 0, confirmedAt = Some 3, cancelledAt = None\<rparr> = Confirmed
   \<and> decide (AddProductItemToShoppingCart ''cart-1''
        \<lparr>productId = ''productB'', productName = ''B'', quantity = 1, unitPrice = 5\<rparr>)
        \<lparr>cart_id = ''cart-1'', customerId = ''customer-9'', status = Confirmed, items = [],
         openedAt = 0, confirmedAt = Some 3, cancelledAt = None\<rparr> 4
     = Inl (IllegalStateError ''Cannot add product to a closed shopping cart'')
   \<and> decide (OpenShoppingCart ''cart-1'' ''customer-9'')
        \<lparr>cart_id = ''cart-1'', customerId = ''customer-9'', status = Confirmed, items = [],
         openedAt = 0, confirmedAt = Some 3, cancelledAt = None\<rparr> 4
     = Inl (IllegalStateError ''Shopping cart already exists'')"
  using terminal_state_commands [of
      "\<lparr>cart_id = ''cart-1'', customerId = ''customer-9'', status = Confirmed, items = [],
        openedAt = 0, confirmedAt = Some 3, cancelledAt = None\<rparr>"
      "''cart-1''"
      "\<lparr>productId = ''productB'', productName = ''B'', quantity = 1, unitPrice = 5\<rparr>" 4
      "\<lparr>productId = ''productB'', productName = ''B'', quantity = 1\<rparr>" "''customer-9''"]
  by simp

text \<open>
  Cancelling against the initial state is accepted and gives a cancelled state whose id
  is empty; \<^verbatim>\<open>OpenShoppingCart\<close> against that state returns its event.
\<close>

theorem terminal_open_accepted:
  "runCommands (initialState 0) [(CancelShoppingCart ''cart-1'', 1)]
     = Inr \<lparr>cart_id = '''', customerId = '''', status = Cancelled, items = [],
            openedAt = 0, confirmedAt = None, cancelledAt = Some 1\<rparr>
   \<and> decide (OpenShoppingCart ''cart-1'' ''customer-9'')
        \<lparr>cart_id = '''', customerId = '''', status = Cancelled, items = [],
         openedAt = 0, confirmedAt = None, cancelledAt = Some 1\<rparr> 2
     = Inr (ShoppingCartOpened ''cart-1'' ''customer-9'' 2)"
  by (simp add: initialState_def cancelShoppingCart_def openShoppingCart_def)

subsection \<open>C6: removing a product from an opened cart\<close>

text \<open>
  C6: in an opened state, \<^verbatim>\<open>RemoveProductItemFromShoppingCart\<close> is rejected with
  \<^verbatim>\<open>IllegalStateError\<close> when no item has the product, and when the first item with the
  product has a smaller quantity than the one asked for; otherwise \<^verbatim>\<open>decide\<close> returns
  the \<^verbatim>\<open>ProductItemRemovedFromShoppingCart\<close> event, and \<^verbatim>\<open>evolve\<close> on that event
  subtracts the quantity from that item, or drops the item when the difference is at
  most 0. The item is the first of the list with the product: the items before it
  (\<open>pre\<close>) do not have it.
\<close>

theorem remove_semantics:
  assumes "status state = Opened"
  shows "((\<forall>x\<in>set (items state). productId x \<noteq> productId p) \<longrightarrow>
            decide (RemoveProductItemFromShoppingCart shoppingCartId p) state now
              = Inl (IllegalStateError ''Product item not found in shopping cart''))
       \<and> (\<forall>pre y post.
            items state = pre @ y # post \<and> (\<forall>x\<in>set pre. productId x \<noteq> productId p)
              \<and> productId y = productId p \<longrightarrow>
            (if quantity y < quantity p
             then decide (RemoveProductItemFromShoppingCart shoppingCartId p) state now
                    = Inl (IllegalStateError ''Cannot remove more items than available in cart'')
             else decide (RemoveProductItemFromShoppingCart shoppingCartId p) state now
                    = Inr (ProductItemRemovedFromShoppingCart shoppingCartId p now)
                \<and> evolve state (ProductItemRemovedFromShoppingCart shoppingCartId p now)
                    = Inr (state\<lparr>items :=
                             if quantity y - quantity p \<le> 0 then pre @ post
                             else pre @ y\<lparr>quantity := quantity y - quantity p\<rparr> # post\<rparr>)))"
proof (intro conjI impI allI)
  assume "\<forall>x\<in>set (items state). productId x \<noteq> productId p"
  then have "find (\<lambda>item. productId item = productId p) (items state) = None"
    by (intro find_none) simp
  then show "decide (RemoveProductItemFromShoppingCart shoppingCartId p) state now
               = Inl (IllegalStateError ''Product item not found in shopping cart'')"
    using assms by (simp add: removeProductItem_def)
next
  fix pre y post
  assume a: "items state = pre @ y # post \<and> (\<forall>x\<in>set pre. productId x \<noteq> productId p)
              \<and> productId y = productId p"
  then have f: "find (\<lambda>item. productId item = productId p) (items state) = Some y"
    using find_first [of pre "\<lambda>item. productId item = productId p" y post] by simp
  have r: "removeProductItems (items state) p
             = Inr (if quantity y - quantity p \<le> 0 then pre @ post
                    else pre @ y\<lparr>quantity := quantity y - quantity p\<rparr> # post)"
    using a removeProductItems_present [of pre p y post] by simp
  show "if quantity y < quantity p
        then decide (RemoveProductItemFromShoppingCart shoppingCartId p) state now
               = Inl (IllegalStateError ''Cannot remove more items than available in cart'')
        else decide (RemoveProductItemFromShoppingCart shoppingCartId p) state now
               = Inr (ProductItemRemovedFromShoppingCart shoppingCartId p now)
           \<and> evolve state (ProductItemRemovedFromShoppingCart shoppingCartId p now)
               = Inr (state\<lparr>items :=
                        if quantity y - quantity p \<le> 0 then pre @ post
                        else pre @ y\<lparr>quantity := quantity y - quantity p\<rparr> # post\<rparr>)"
    using assms f r by (simp add: removeProductItem_def)
qed

theorem remove_semantics_witness:
  "decide (RemoveProductItemFromShoppingCart ''cart-1''
        \<lparr>productId = ''productA'', productName = ''A'', quantity = 1\<rparr>)
        \<lparr>cart_id = ''cart-1'', customerId = ''customer-9'', status = Opened,
         items = [\<lparr>productId = ''productA'', productName = ''A'', quantity = 3, unitPrice = 10\<rparr>],
         openedAt = 1, confirmedAt = None, cancelledAt = None\<rparr> 4
     = Inr (ProductItemRemovedFromShoppingCart ''cart-1''
        \<lparr>productId = ''productA'', productName = ''A'', quantity = 1\<rparr> 4)
   \<and> evolve
        \<lparr>cart_id = ''cart-1'', customerId = ''customer-9'', status = Opened,
         items = [\<lparr>productId = ''productA'', productName = ''A'', quantity = 3, unitPrice = 10\<rparr>],
         openedAt = 1, confirmedAt = None, cancelledAt = None\<rparr>
        (ProductItemRemovedFromShoppingCart ''cart-1''
          \<lparr>productId = ''productA'', productName = ''A'', quantity = 1\<rparr> 4)
     = Inr \<lparr>cart_id = ''cart-1'', customerId = ''customer-9'', status = Opened,
         items = [\<lparr>productId = ''productA'', productName = ''A'', quantity = 2, unitPrice = 10\<rparr>],
         openedAt = 1, confirmedAt = None, cancelledAt = None\<rparr>"
proof -
  let ?state =
    "\<lparr>cart_id = ''cart-1'', customerId = ''customer-9'', status = Opened,
      items = [\<lparr>productId = ''productA'', productName = ''A'', quantity = 3, unitPrice = 10\<rparr>],
      openedAt = 1, confirmedAt = None, cancelledAt = None\<rparr>"
  let ?p = "\<lparr>productId = ''productA'', productName = ''A'', quantity = 1\<rparr>"
  have opened: "status ?state = Opened" by simp
  have "\<forall>pre y post.
          items ?state = pre @ y # post \<and> (\<forall>x\<in>set pre. productId x \<noteq> productId ?p)
            \<and> productId y = productId ?p \<longrightarrow>
          (if quantity y < quantity ?p
           then decide (RemoveProductItemFromShoppingCart ''cart-1'' ?p) ?state 4
                  = Inl (IllegalStateError ''Cannot remove more items than available in cart'')
           else decide (RemoveProductItemFromShoppingCart ''cart-1'' ?p) ?state 4
                  = Inr (ProductItemRemovedFromShoppingCart ''cart-1'' ?p 4)
              \<and> evolve ?state (ProductItemRemovedFromShoppingCart ''cart-1'' ?p 4)
                  = Inr (?state\<lparr>items :=
                           if quantity y - quantity ?p \<le> 0 then pre @ post
                           else pre @ y\<lparr>quantity := quantity y - quantity ?p\<rparr> # post\<rparr>))"
    using remove_semantics [OF opened, of ?p "''cart-1''" 4] by (rule conjunct2)
  from this [rule_format,
      of "[]" "\<lparr>productId = ''productA'', productName = ''A'', quantity = 3, unitPrice = 10\<rparr>" "[]"]
  show ?thesis by simp
qed

subsection \<open>C7: adding a product to an opened cart\<close>

text \<open>
  C7: in an opened state \<^verbatim>\<open>AddProductItemToShoppingCart\<close> is accepted, and \<^verbatim>\<open>evolve\<close>
  on its event adds the quantity to the first item with the product, whose other
  fields (the unit price among them) stay, or appends the product as a new item when
  no item has it. Scenario A: open, add product A with quantity 2 at price 10, add
  product A with quantity 1 (at any price \<open>price2\<close>); the cart then has the one line
  of product A with quantity 3 at price 10, and the summary projection of the three
  events has that line and the total amount 30.
\<close>

theorem add_merges_by_product:
  assumes "status state = Opened"
  shows "decide (AddProductItemToShoppingCart shoppingCartId p) state now
           = Inr (ProductItemAddedToShoppingCart shoppingCartId p now)
       \<and> (\<forall>pre y post.
            items state = pre @ y # post \<and> (\<forall>x\<in>set pre. productId x \<noteq> productId p)
              \<and> productId y = productId p \<longrightarrow>
            evolve state (ProductItemAddedToShoppingCart shoppingCartId p now)
              = Inr (state\<lparr>items := pre @ y\<lparr>quantity := quantity y + quantity p\<rparr> # post\<rparr>))
       \<and> ((\<forall>x\<in>set (items state). productId x \<noteq> productId p) \<longrightarrow>
            evolve state (ProductItemAddedToShoppingCart shoppingCartId p now)
              = Inr (state\<lparr>items := items state @ [p]\<rparr>))
       \<and> runCommands (initialState clock)
            [(OpenShoppingCart ''cart-1'' ''customer-9'', t1),
             (AddProductItemToShoppingCart ''cart-1''
                \<lparr>productId = ''productA'', productName = ''A'', quantity = 2, unitPrice = 10\<rparr>, t2),
             (AddProductItemToShoppingCart ''cart-1''
                \<lparr>productId = ''productA'', productName = name2, quantity = 1, unitPrice = price2\<rparr>, t3)]
           = Inr \<lparr>cart_id = ''cart-1'', customerId = ''customer-9'', status = Opened,
                  items = [\<lparr>productId = ''productA'', productName = ''A'', quantity = 3,
                            unitPrice = 10\<rparr>],
                  openedAt = t1, confirmedAt = None, cancelledAt = None\<rparr>
       \<and> foldShoppingCartSummary None
            [ShoppingCartOpened ''cart-1'' ''customer-9'' t1,
             ProductItemAddedToShoppingCart ''cart-1''
                \<lparr>productId = ''productA'', productName = ''A'', quantity = 2, unitPrice = 10\<rparr> t2,
             ProductItemAddedToShoppingCart ''cart-1''
                \<lparr>productId = ''productA'', productName = name2, quantity = 1, unitPrice = price2\<rparr> t3]
           = Inr (Some \<lparr>summary_id = ''cart-1'', summary_customerId = ''customer-9'',
                  summary_status = Opened,
                  summary_items = [\<lparr>productId = ''productA'', productName = ''A'', quantity = 3,
                            unitPrice = 10\<rparr>],
                  totalAmount = 30, totalItemsCount = 3,
                  summary_openedAt = t1, summary_confirmedAt = None,
                  summary_cancelledAt = None\<rparr>)"
proof (intro conjI allI impI)
  show "decide (AddProductItemToShoppingCart shoppingCartId p) state now
          = Inr (ProductItemAddedToShoppingCart shoppingCartId p now)"
    using assms by (simp add: addProductItem_def)
next
  fix pre y post
  assume "items state = pre @ y # post \<and> (\<forall>x\<in>set pre. productId x \<noteq> productId p)
            \<and> productId y = productId p"
  then show "evolve state (ProductItemAddedToShoppingCart shoppingCartId p now)
               = Inr (state\<lparr>items := pre @ y\<lparr>quantity := quantity y + quantity p\<rparr> # post\<rparr>)"
    using mergeProductItems_present [of pre p y post] by simp
next
  assume "\<forall>x\<in>set (items state). productId x \<noteq> productId p"
  then show "evolve state (ProductItemAddedToShoppingCart shoppingCartId p now)
               = Inr (state\<lparr>items := items state @ [p]\<rparr>)"
    using mergeProductItems_absent [of "items state" p] by simp
next
  show "runCommands (initialState clock)
            [(OpenShoppingCart ''cart-1'' ''customer-9'', t1),
             (AddProductItemToShoppingCart ''cart-1''
                \<lparr>productId = ''productA'', productName = ''A'', quantity = 2, unitPrice = 10\<rparr>, t2),
             (AddProductItemToShoppingCart ''cart-1''
                \<lparr>productId = ''productA'', productName = name2, quantity = 1, unitPrice = price2\<rparr>, t3)]
           = Inr \<lparr>cart_id = ''cart-1'', customerId = ''customer-9'', status = Opened,
                  items = [\<lparr>productId = ''productA'', productName = ''A'', quantity = 3,
                            unitPrice = 10\<rparr>],
                  openedAt = t1, confirmedAt = None, cancelledAt = None\<rparr>"
    by (simp add: initialState_def openShoppingCart_def addProductItem_def
        mergeProductItems_def elemAt_def)
next
  show "foldShoppingCartSummary None
            [ShoppingCartOpened ''cart-1'' ''customer-9'' t1,
             ProductItemAddedToShoppingCart ''cart-1''
                \<lparr>productId = ''productA'', productName = ''A'', quantity = 2, unitPrice = 10\<rparr> t2,
             ProductItemAddedToShoppingCart ''cart-1''
                \<lparr>productId = ''productA'', productName = name2, quantity = 1, unitPrice = price2\<rparr> t3]
           = Inr (Some \<lparr>summary_id = ''cart-1'', summary_customerId = ''customer-9'',
                  summary_status = Opened,
                  summary_items = [\<lparr>productId = ''productA'', productName = ''A'', quantity = 3,
                            unitPrice = 10\<rparr>],
                  totalAmount = 30, totalItemsCount = 3,
                  summary_openedAt = t1, summary_confirmedAt = None,
                  summary_cancelledAt = None\<rparr>)"
    by (simp add: mergeProductItems_def elemAt_def calculateTotals_def)
qed

theorem add_merges_by_product_witness:
  "evolve
     \<lparr>cart_id = ''cart-1'', customerId = ''customer-9'', status = Opened,
      items = [\<lparr>productId = ''productB'', productName = ''B'', quantity = 1, unitPrice = 5\<rparr>,
               \<lparr>productId = ''productA'', productName = ''A'', quantity = 2, unitPrice = 10\<rparr>],
      openedAt = 1, confirmedAt = None, cancelledAt = None\<rparr>
     (ProductItemAddedToShoppingCart ''cart-1''
        \<lparr>productId = ''productA'', productName = ''A'', quantity = 1, unitPrice = 12\<rparr> 4)
   = Inr \<lparr>cart_id = ''cart-1'', customerId = ''customer-9'', status = Opened,
      items = [\<lparr>productId = ''productB'', productName = ''B'', quantity = 1, unitPrice = 5\<rparr>,
               \<lparr>productId = ''productA'', productName = ''A'', quantity = 3, unitPrice = 10\<rparr>],
      openedAt = 1, confirmedAt = None, cancelledAt = None\<rparr>"
proof -
  let ?b = "\<lparr>productId = ''productB'', productName = ''B'', quantity = 1, unitPrice = 5\<rparr>"
  let ?a = "\<lparr>productId = ''productA'', productName = ''A'', quantity = 2, unitPrice = 10\<rparr>"
  let ?state =
    "\<lparr>cart_id = ''cart-1'', customerId = ''customer-9'', status = Opened,
      items = [?b, ?a], openedAt = 1, confirmedAt = None, cancelledAt = None\<rparr>"
  let ?p = "\<lparr>productId = ''productA'', productName = ''A'', quantity = 1, unitPrice = 12\<rparr>"
  have opened: "status ?state = Opened" by simp
  have "\<forall>pre y post.
          items ?state = pre @ y # post \<and> (\<forall>x\<in>set pre. productId x \<noteq> productId ?p)
            \<and> productId y = productId ?p \<longrightarrow>
          evolve ?state (ProductItemAddedToShoppingCart ''cart-1'' ?p 4)
            = Inr (?state\<lparr>items := pre @ y\<lparr>quantity := quantity y + quantity ?p\<rparr> # post\<rparr>)"
    using add_merges_by_product [OF opened, of "''cart-1''" ?p 4] by blast
  from this [rule_format, of "[?b]" ?a "[]"]
  show ?thesis by simp
qed

subsection \<open>C8: \<^verbatim>\<open>evolve\<close> never fails\<close>

text \<open>
  C8: \<^verbatim>\<open>evolve\<close> returns a state for every state and every event (the array reads
  behind \<^verbatim>\<open>findIndex\<close> never meet \<^verbatim>\<open>undefined\<close>, so no \<^verbatim>\<open>TypeError\<close>); on an event
  whose type tag it does not know it returns the state it was given; and on a
  \<^verbatim>\<open>ProductItemRemovedFromShoppingCart\<close> event whose product no item has, it returns
  the state it was given.
\<close>

theorem evolve_never_fails:
  "(\<exists>state'. evolve state event = Inr state')
   \<and> evolve state (UnrecognizedEvent tag) = Inr state
   \<and> ((\<forall>x\<in>set (items state). productId x \<noteq> productId p) \<longrightarrow>
        evolve state (ProductItemRemovedFromShoppingCart shoppingCartId p ts) = Inr state)"
  using evolve_total [of state event] removeProductItems_absent [of "items state" p]
  by auto

theorem evolve_never_fails_witness:
  "evolve
     \<lparr>cart_id = ''cart-1'', customerId = ''customer-9'', status = Opened,
      items = [\<lparr>productId = ''productA'', productName = ''A'', quantity = 2, unitPrice = 10\<rparr>],
      openedAt = 1, confirmedAt = None, cancelledAt = None\<rparr>
     (ProductItemRemovedFromShoppingCart ''cart-1''
        \<lparr>productId = ''productB'', productName = ''B'', quantity = 1\<rparr> 4)
   = Inr \<lparr>cart_id = ''cart-1'', customerId = ''customer-9'', status = Opened,
      items = [\<lparr>productId = ''productA'', productName = ''A'', quantity = 2, unitPrice = 10\<rparr>],
      openedAt = 1, confirmedAt = None, cancelledAt = None\<rparr>
   \<and> evolve
     \<lparr>cart_id = ''cart-1'', customerId = ''customer-9'', status = Opened,
      items = [\<lparr>productId = ''productA'', productName = ''A'', quantity = 2, unitPrice = 10\<rparr>],
      openedAt = 1, confirmedAt = None, cancelledAt = None\<rparr>
     (UnrecognizedEvent ''ShoppingCartArchived'')
   = Inr \<lparr>cart_id = ''cart-1'', customerId = ''customer-9'', status = Opened,
      items = [\<lparr>productId = ''productA'', productName = ''A'', quantity = 2, unitPrice = 10\<rparr>],
      openedAt = 1, confirmedAt = None, cancelledAt = None\<rparr>"
  using evolve_never_fails [of
      "\<lparr>cart_id = ''cart-1'', customerId = ''customer-9'', status = Opened,
        items = [\<lparr>productId = ''productA'', productName = ''A'', quantity = 2, unitPrice = 10\<rparr>],
        openedAt = 1, confirmedAt = None, cancelledAt = None\<rparr>"
      "UnrecognizedEvent ''ShoppingCartArchived''" "''ShoppingCartArchived''"
      "\<lparr>productId = ''productB'', productName = ''B'', quantity = 1\<rparr>" "''cart-1''" 4]
  by simp

subsection \<open>C9: the totals of a summary document\<close>

text \<open>
  C9: the fold of \<^verbatim>\<open>evolveShoppingCartSummary\<close> from \<^verbatim>\<open>null\<close> over any events returns,
  and when it returns a document, the document's \<^verbatim>\<open>totalAmount\<close> is the sum of unit
  price times quantity over its items and its \<^verbatim>\<open>totalItemsCount\<close> the sum of the
  quantities; and one step from a document with such totals returns, and when it
  returns a document, that document has such totals.
\<close>

theorem summary_totals_invariant:
  "(\<exists>document. foldShoppingCartSummary None events = Inr document
       \<and> (\<forall>doc. document = Some doc \<longrightarrow>
            totalAmount doc
              = sum_list (map (\<lambda>item. unitPrice item * real_of_int (quantity item))
                  (summary_items doc))
            \<and> totalItemsCount doc = sum_list (map quantity (summary_items doc))))
   \<and> (\<forall>doc event. totalsConsistent doc \<longrightarrow>
        (\<exists>document'. evolveShoppingCartSummary (Some doc) event = Inr document'
           \<and> (\<forall>doc'. document' = Some doc' \<longrightarrow> totalsConsistent doc')))"
proof (intro conjI allI impI)
  obtain document where f: "foldShoppingCartSummary None events = Inr document"
    using foldShoppingCartSummary_total by blast
  have "\<forall>doc. document = Some doc \<longrightarrow> totalsConsistent doc"
    using foldShoppingCartSummary_consistent [of None events] f by simp
  then show "\<exists>document. foldShoppingCartSummary None events = Inr document
       \<and> (\<forall>doc. document = Some doc \<longrightarrow>
            totalAmount doc
              = sum_list (map (\<lambda>item. unitPrice item * real_of_int (quantity item))
                  (summary_items doc))
            \<and> totalItemsCount doc = sum_list (map quantity (summary_items doc)))"
    using f by (auto simp: totalsConsistent_def)
next
  fix doc event
  assume c: "totalsConsistent doc"
  obtain document' where s: "evolveShoppingCartSummary (Some doc) event = Inr document'"
    using evolveShoppingCartSummary_total by blast
  have "\<forall>doc'. document' = Some doc' \<longrightarrow> totalsConsistent doc'"
    using evolveShoppingCartSummary_consistent [of "Some doc" event] s c by simp
  then show "\<exists>document'. evolveShoppingCartSummary (Some doc) event = Inr document'
           \<and> (\<forall>doc'. document' = Some doc' \<longrightarrow> totalsConsistent doc')"
    using s by blast
qed

theorem summary_totals_invariant_witness:
  "foldShoppingCartSummary None
     [ShoppingCartOpened ''cart-1'' ''customer-9'' 1,
      ProductItemAddedToShoppingCart ''cart-1''
        \<lparr>productId = ''productA'', productName = ''A'', quantity = 2, unitPrice = 10\<rparr> 2,
      ProductItemAddedToShoppingCart ''cart-1''
        \<lparr>productId = ''productB'', productName = ''B'', quantity = 1, unitPrice = 5\<rparr> 3]
   = Inr (Some \<lparr>summary_id = ''cart-1'', summary_customerId = ''customer-9'',
        summary_status = Opened,
        summary_items =
          [\<lparr>productId = ''productA'', productName = ''A'', quantity = 2, unitPrice = 10\<rparr>,
           \<lparr>productId = ''productB'', productName = ''B'', quantity = 1, unitPrice = 5\<rparr>],
        totalAmount = 25, totalItemsCount = 3, summary_openedAt = 1,
        summary_confirmedAt = None, summary_cancelledAt = None\<rparr>)
   \<and> (25 :: real) = sum_list (map (\<lambda>item. unitPrice item * real_of_int (quantity item))
          [\<lparr>productId = ''productA'', productName = ''A'', quantity = 2, unitPrice = 10\<rparr>,
           \<lparr>productId = ''productB'', productName = ''B'', quantity = 1, unitPrice = 5\<rparr>])"
  using summary_totals_invariant [of
     "[ShoppingCartOpened ''cart-1'' ''customer-9'' 1,
      ProductItemAddedToShoppingCart ''cart-1''
        \<lparr>productId = ''productA'', productName = ''A'', quantity = 2, unitPrice = 10\<rparr> 2,
      ProductItemAddedToShoppingCart ''cart-1''
        \<lparr>productId = ''productB'', productName = ''B'', quantity = 1, unitPrice = 5\<rparr> 3]"]
  by (simp add: mergeProductItems_def calculateTotals_def)

subsection \<open>C10: the fold of \<^verbatim>\<open>getAllCarts\<close> against the fold of \<^verbatim>\<open>evolve\<close>\<close>

text \<open>
  C10 says that the loop of \<^verbatim>\<open>getAllCarts\<close> computes, for every sequence of events, the
  status and the lines that the fold of \<^verbatim>\<open>evolve\<close> from \<^verbatim>\<open>initialState\<close> computes. On
  \<^verbatim>\<open>ShoppingCartOpened\<close> the loop keeps the items it has, while \<^verbatim>\<open>evolve\<close> starts from
  an empty list. What holds: the fold of \<^verbatim>\<open>evolve\<close> returns a state, the status of the
  two is the same for every sequence, and the lines (product, quantity, unit price, in
  order) are the same for every sequence in which no \<^verbatim>\<open>ShoppingCartOpened\<close> comes after
  a \<^verbatim>\<open>ProductItemAddedToShoppingCart\<close>.
\<close>

theorem getAllCarts_refines_evolve:
  "\<exists>state. foldEvents (initialState clock) events = Inr state
     \<and> cartSummary_status (cartSummaryFold (cartSummaryInit streamId updated n) events)
         = status state
     \<and> (noOpenedAfterAdded events \<longrightarrow>
          linesOfSummary (cartSummary_items
              (cartSummaryFold (cartSummaryInit streamId updated n) events))
            = linesOfCart (items state))"
proof -
  obtain state where f: "foldEvents (initialState clock) events = Inr state"
    using foldEvents_total by blast
  have st: "cartSummary_status (cartSummaryFold (cartSummaryInit streamId updated n) events)
              = status state"
    using status_fold [of "cartSummaryInit streamId updated n" "initialState clock" events state] f
    by (simp add: cartSummaryInit_def initialState_def)
  have init: "sameCart (cartSummaryInit streamId updated n) (initialState clock)"
    by (simp add: sameCart_def cartSummaryInit_def initialState_def
        linesOfSummary_def linesOfCart_def)
  have "linesOfSummary (cartSummary_items
              (cartSummaryFold (cartSummaryInit streamId updated n) events))
            = linesOfCart (items state)"
    if h: "noOpenedAfterAdded events"
  proof -
    have "sameCart (cartSummaryFold (cartSummaryInit streamId updated n) events) state"
      using sameCart_fold_empty [OF init _ _ h f]
      by (simp add: cartSummaryInit_def initialState_def)
    then show ?thesis by (simp add: sameCart_def)
  qed
  then show ?thesis using f st by blast
qed

theorem getAllCarts_refines_evolve_witness:
  "foldEvents (initialState 0)
     [ShoppingCartOpened ''cart-1'' ''customer-9'' 1,
      ProductItemAddedToShoppingCart ''cart-1''
        \<lparr>productId = ''productA'', productName = ''A'', quantity = 2, unitPrice = 10\<rparr> 2,
      ProductItemAddedToShoppingCart ''cart-1''
        \<lparr>productId = ''productA'', productName = ''A'', quantity = 1, unitPrice = 10\<rparr> 3,
      ProductItemRemovedFromShoppingCart ''cart-1''
        \<lparr>productId = ''productA'', productName = ''A'', quantity = 1\<rparr> 4,
      ShoppingCartConfirmed ''cart-1'' 5]
     = Inr \<lparr>cart_id = ''cart-1'', customerId = ''customer-9'', status = Confirmed,
            items = [\<lparr>productId = ''productA'', productName = ''A'', quantity = 2,
                      unitPrice = 10\<rparr>],
            openedAt = 1, confirmedAt = Some 5, cancelledAt = None\<rparr>
   \<and> cartSummary_status (cartSummaryFold (cartSummaryInit ''cart-1'' ''2024-01-01T10:00:00.000Z'' 5)
     [ShoppingCartOpened ''cart-1'' ''customer-9'' 1,
      ProductItemAddedToShoppingCart ''cart-1''
        \<lparr>productId = ''productA'', productName = ''A'', quantity = 2, unitPrice = 10\<rparr> 2,
      ProductItemAddedToShoppingCart ''cart-1''
        \<lparr>productId = ''productA'', productName = ''A'', quantity = 1, unitPrice = 10\<rparr> 3,
      ProductItemRemovedFromShoppingCart ''cart-1''
        \<lparr>productId = ''productA'', productName = ''A'', quantity = 1\<rparr> 4,
      ShoppingCartConfirmed ''cart-1'' 5]) = Confirmed
   \<and> linesOfSummary (cartSummary_items
     (cartSummaryFold (cartSummaryInit ''cart-1'' ''2024-01-01T10:00:00.000Z'' 5)
     [ShoppingCartOpened ''cart-1'' ''customer-9'' 1,
      ProductItemAddedToShoppingCart ''cart-1''
        \<lparr>productId = ''productA'', productName = ''A'', quantity = 2, unitPrice = 10\<rparr> 2,
      ProductItemAddedToShoppingCart ''cart-1''
        \<lparr>productId = ''productA'', productName = ''A'', quantity = 1, unitPrice = 10\<rparr> 3,
      ProductItemRemovedFromShoppingCart ''cart-1''
        \<lparr>productId = ''productA'', productName = ''A'', quantity = 1\<rparr> 4,
      ShoppingCartConfirmed ''cart-1'' 5])) = [(''productA'', 2, 10)]"
  using getAllCarts_refines_evolve [of 0
     "[ShoppingCartOpened ''cart-1'' ''customer-9'' 1,
      ProductItemAddedToShoppingCart ''cart-1''
        \<lparr>productId = ''productA'', productName = ''A'', quantity = 2, unitPrice = 10\<rparr> 2,
      ProductItemAddedToShoppingCart ''cart-1''
        \<lparr>productId = ''productA'', productName = ''A'', quantity = 1, unitPrice = 10\<rparr> 3,
      ProductItemRemovedFromShoppingCart ''cart-1''
        \<lparr>productId = ''productA'', productName = ''A'', quantity = 1\<rparr> 4,
      ShoppingCartConfirmed ''cart-1'' 5]"
     "''cart-1''" "''2024-01-01T10:00:00.000Z''" 5]
  by (simp add: initialState_def cartSummaryInit_def mergeProductItems_def
      removeProductItems_def elemAt_def linesOfSummary_def linesOfCart_def)

text \<open>
  A second \<^verbatim>\<open>ShoppingCartOpened\<close> after an added product: \<^verbatim>\<open>evolve\<close> ends with no
  items, the loop of \<^verbatim>\<open>getAllCarts\<close> with the line of product A.
\<close>

theorem getAllCarts_keeps_items_counterexample:
  "foldEvents (initialState 0)
     [ShoppingCartOpened ''cart-1'' ''customer-9'' 1,
      ProductItemAddedToShoppingCart ''cart-1''
        \<lparr>productId = ''productA'', productName = ''A'', quantity = 2, unitPrice = 10\<rparr> 2,
      ShoppingCartOpened ''cart-1'' ''customer-9'' 3]
     = Inr \<lparr>cart_id = ''cart-1'', customerId = ''customer-9'', status = Opened, items = [],
            openedAt = 3, confirmedAt = None, cancelledAt = None\<rparr>
   \<and> cartSummary_items (cartSummaryFold (cartSummaryInit ''cart-1'' ''2024-01-01T10:00:00.000Z'' 3)
     [ShoppingCartOpened ''cart-1'' ''customer-9'' 1,
      ProductItemAddedToShoppingCart ''cart-1''
        \<lparr>productId = ''productA'', productName = ''A'', quantity = 2, unitPrice = 10\<rparr> 2,
      ShoppingCartOpened ''cart-1'' ''customer-9'' 3])
     = [\<lparr>line_productId = ''productA'', line_productName = ''A'', line_quantity = 2, price = 10\<rparr>]"
  by (simp add: initialState_def cartSummaryInit_def mergeProductItems_def)

end
